theory Spec2Isabelle
  imports Complex_Main
begin

section \<open>Tiles and tile containers\<close>

text \<open>
  A tile has a letter, a point value and the flag that marks a blank. A container
  (\<open>Pot\<close> in \<open>game/Pot.js\<close>, \<open>Word\<close> in the second unnamed part) is a one-row
  \<open>Surface\<close>: a fixed sequence of squares, each carrying at most one tile. A square
  is referred to by its position in the row.
\<close>

record tile =
  letter :: string
  score :: int
  isBlank :: bool

type_synonym surface = "tile option list"

datatype error =
    AssertionError string
  | ReferenceError string
  | TypeError string
  | CannotFind string
  | Rejected string

text \<open>
  Modelled from the spec: \<open>Square.unplaceTile\<close>, not part of the sources at hand; a slot
  holds zero or one tile, and unplacing empties the slot and hands the tile back as it
  is.
\<close>

definition unplaceTile :: "nat \<Rightarrow> surface \<Rightarrow> surface" where
  "unplaceTile i s = s[i := None]"

text \<open>
  \<open>Pot.findSquare\<close>: the callback overwrites \<open>square\<close> at every tile whose letter is
  the requested one, and never stops the iteration. (\<open>Surface.forEachTiledSquare\<close> is
  not part of the sources at hand: the slots are visited in order, and the slots
  without a tile are skipped.)
\<close>

fun Pot_findSquare_from :: "string \<Rightarrow> surface \<Rightarrow> nat \<Rightarrow> (nat \<times> tile) option \<Rightarrow> (nat \<times> tile) option" where
  "Pot_findSquare_from l [] i square = square"
| "Pot_findSquare_from l (None # sqs) i square = Pot_findSquare_from l sqs (Suc i) square"
| "Pot_findSquare_from l (Some t # sqs) i square =
     Pot_findSquare_from l sqs (Suc i) (if letter t = l then Some (i, t) else square)"

definition Pot_findSquare :: "string \<Rightarrow> surface \<Rightarrow> (nat \<times> tile) option" where
  "Pot_findSquare l s = Pot_findSquare_from l s 0 None"

text \<open>
  \<open>Pot.removeTile\<close>: the letter is read from the requested tile, the square found is
  emptied, and its tile is returned; with no square found the call throws.
\<close>

definition Pot_removeTile :: "tile \<Rightarrow> surface \<Rightarrow> error + (tile \<times> surface)" where
  "Pot_removeTile remove s =
     (case Pot_findSquare (letter remove) s of
        None \<Rightarrow> Inl (CannotFind (letter remove))
      | Some (i, t) \<Rightarrow> Inr (t, unplaceTile i s))"

text \<open>
  \<open>Word.findSquare\<close>: the callback also takes a blank while no square has been taken
  yet: \<open>(!square && sq.tile.isBlank) || sq.tile.letter === letter\<close>.
\<close>

fun Word_findSquare_from :: "string \<Rightarrow> surface \<Rightarrow> nat \<Rightarrow> (nat \<times> tile) option \<Rightarrow> (nat \<times> tile) option" where
  "Word_findSquare_from l [] i square = square"
| "Word_findSquare_from l (None # sqs) i square = Word_findSquare_from l sqs (Suc i) square"
| "Word_findSquare_from l (Some t # sqs) i square =
     Word_findSquare_from l sqs (Suc i)
       (if (square = None \<and> isBlank t) \<or> letter t = l then Some (i, t) else square)"

definition Word_findSquare :: "string \<Rightarrow> surface \<Rightarrow> (nat \<times> tile) option" where
  "Word_findSquare l s = Word_findSquare_from l s 0 None"

text \<open>
  \<open>Word.removeTile\<close>: as for the pot, and a blank that is returned has its letter
  overwritten with the requested one.
\<close>

definition Word_removeTile :: "tile \<Rightarrow> surface \<Rightarrow> error + (tile \<times> surface)" where
  "Word_removeTile remove s =
     (case Word_findSquare (letter remove) s of
        None \<Rightarrow> Inl (CannotFind (letter remove))
      | Some (i, t) \<Rightarrow>
          Inr (if isBlank t then t\<lparr>letter := letter remove\<rparr> else t, unplaceTile i s))"

text \<open>
  \<open>addTile\<close>: the tile goes on the first empty square; the iteration stops there. A
  full container is left as it is.
\<close>

fun addTile :: "tile \<Rightarrow> surface \<Rightarrow> surface" where
  "addTile t [] = []"
| "addTile t (None # sqs) = Some t # sqs"
| "addTile t (Some u # sqs) = Some u # addTile t sqs"

text \<open>What a container holds.\<close>

definition holds_letter :: "string \<Rightarrow> surface \<Rightarrow> bool" where
  "holds_letter l s = (\<exists>t \<in> set s. case t of None \<Rightarrow> False | Some u \<Rightarrow> letter u = l)"

definition holds_blank :: "surface \<Rightarrow> bool" where
  "holds_blank s = (\<exists>t \<in> set s. case t of None \<Rightarrow> False | Some u \<Rightarrow> isBlank u)"

section \<open>The game aggregate\<close>

text \<open>
  The enumerations of \<open>Game\<close> that the command handlers name. \<open>Game.js\<close> is not part of
  the sources at hand; the constants are the ones the handlers compare against.
\<close>

datatype turnType = PLAYED | CHALLENGE_LOST | TOOK_BACK | CHALLENGE_WON | GAME_ENDED

datatype gstate = WAITING | PLAYING | GAME_OVER | TWO_PASSES | FAILED_CHALLENGE

datatype penalty = Penalty_NONE | MISS | PER_TURN | PER_WORD

datatype timer = Timer_NONE | TURN | GAME

datatype wordCheck = WordCheck_NONE | AFTER | REJECT

datatype notify = Notify_REJECT | Notify_PAUSE | Notify_UNPAUSE

text \<open>A word of a move, a placement (a tile with the board position it goes to), a move.\<close>

record mword =
  w_word :: string
  w_score :: int

record placement =
  pl_tile :: tile
  pl_col :: nat
  pl_row :: nat

record move =
  m_placements :: "placement list option"
  m_words :: "mword list"
  m_score :: int

record player =
  p_key :: string
  p_name :: string
  p_score :: int
  p_rack :: surface
  p_clock :: int
  p_missNextTurn :: bool

text \<open>
  One entry of the \<open>score\<close> array of a \<open>GAME_ENDED\<close> turn: \<open>tiles\<close> is always set,
  \<open>tilesRemaining\<close> and \<open>time\<close> only in the branches that assign them.
\<close>

record delta =
  d_key :: string
  d_tiles :: int
  d_tilesRemaining :: "string option"
  d_time :: "int option"

datatype tscore = NoScore | Points int | Deltas "delta list"

text \<open>
  A turn record. A field that the handler does not write is absent (\<open>None\<close>);
  \<open>playerKey\<close> is written by \<open>finishTurn\<close>.
\<close>

record turn =
  t_type :: turnType
  t_playerKey :: "string option"
  t_score :: tscore
  t_placements :: "placement list option"
  t_replacements :: "tile list option"
  t_words :: "mword list"
  t_challengerKey :: "string option"
  t_nextToGoKey :: "string option"
  t_penalty :: "penalty option"
  t_endState :: "gstate option"
  t_remainingTime :: "int option"

datatype payload = Reject_payload string "string list" | Pause_payload string string

text \<open>A notification handed to the notifier: the addressee (\<open>None\<close> for everybody),
  the event type and the payload.\<close>

record notification =
  n_to :: "nat option"
  n_type :: notify
  n_payload :: payload

text \<open>
  The game. A player object is referred to by its position in \<open>players\<close>, so that a
  handler that changes \<open>player.score\<close> changes the player the game holds. \<open>isRobot\<close> is
  the property \<open>this.isRobot\<close> that \<open>play\<close> reads from the game. \<open>dictionaryService\<close> is
  the dictionary collaborator: \<open>None\<close> when \<open>promiseDictionary\<close> rejects, the list of the
  words it knows otherwise. \<open>outbox\<close> collects what the notifier was given, in order.
\<close>

record game =
  key :: string
  board :: "nat \<times> nat \<Rightarrow> tile option"
  letterBag :: "tile list"
  players :: "player list"
  turns :: "turn list"
  state :: gstate
  whosTurnKey :: "string option"
  pausedBy :: "string option"
  clockRunning :: bool
  challengePenalty :: penalty
  penaltyPoints :: int
  timerType :: timer
  timePenalty :: int
  wordCheck :: wordCheck
  dictionary :: "string option"
  isRobot :: bool
  dictionaryService :: "string list option"
  outbox :: "notification list"

type_synonym result = "error option \<times> game"

text \<open>
  What a \<open>then\<close> handler is given as the dictionary: the dictionary that
  \<open>promiseDictionary\<close> resolved to, or the game that a \<open>catch\<close> handler before it
  returned.
\<close>

datatype resolved = Dictionary "string list" | The_game

text \<open>JavaScript truthiness of an optional string: defined and not empty.\<close>

definition truthy :: "string option \<Rightarrow> bool" where
  "truthy s = (case s of None \<Rightarrow> False | Some x \<Rightarrow> x \<noteq> [])"

text \<open>
  Modelled from the spec: \<open>hasWord\<close> of the dictionary collaborator, which is not part of
  the sources at hand; \<open>hasWord(word) -> bool\<close> tells whether the dictionary knows the
  word.
\<close>

definition hasWord :: "string list \<Rightarrow> string \<Rightarrow> bool" where
  "hasWord dict w = (w \<in> set dict)"

text \<open>A reference to a player is defined when it names a position of the roster.\<close>

definition valid_player :: "game \<Rightarrow> nat \<Rightarrow> bool" where
  "valid_player g i = (i < length (players g))"

text \<open>Assignment to a field of the player object at a position.\<close>

definition update_player :: "nat \<Rightarrow> (player \<Rightarrow> player) \<Rightarrow> game \<Rightarrow> game" where
  "update_player i f g = g\<lparr>players := (players g)[i := f (players g ! i)]\<rparr>"

subsection \<open>Operations of the game that the handlers call\<close>

text \<open>
  Modelled from the spec: \<open>Surface.tiles\<close>, not part of the sources at hand; the tiles
  currently held, in the order of the slots.
\<close>

definition tiles :: "surface \<Rightarrow> tile list" where
  "tiles s = [t. Some t \<leftarrow> s]"

text \<open>
  Modelled from the spec: \<open>Surface.isEmpty\<close>, not part of the sources at hand; a rack is
  empty when no slot holds a tile.
\<close>

definition isEmpty :: "surface \<Rightarrow> bool" where
  "isEmpty s = (tiles s = [])"

text \<open>
  Modelled from the spec: \<open>Surface.score\<close>, not part of the sources at hand; the rack's
  total point value.
\<close>

definition rackScore :: "surface \<Rightarrow> int" where
  "rackScore s = sum_list (map score (tiles s))"

text \<open>\<open>Array.prototype.join\<close>.\<close>

fun join :: "string \<Rightarrow> string list \<Rightarrow> string" where
  "join sep [] = []"
| "join sep [x] = x"
| "join sep (x # y # ys) = x @ sep @ join sep (y # ys)"

text \<open>
  Modelled from the spec: \<open>lettersLeft\<close>, not part of the sources at hand; the letters
  currently held.
\<close>

definition lettersLeft :: "surface \<Rightarrow> string list" where
  "lettersLeft s = map letter (tiles s)"

text \<open>
  Modelled from the spec: \<open>lastTurn\<close> of \<open>Game\<close>, not part of the sources at hand; the
  last turn is the ledger's tail, undefined on an empty ledger.
\<close>

definition lastTurn :: "game \<Rightarrow> turn option" where
  "lastTurn g = (if turns g = [] then None else Some (last (turns g)))"

text \<open>
  Modelled from the spec: \<open>getPlayerWithKey\<close> of \<open>Game\<close>, not part of the sources at hand;
  the first player of the roster with the identity key, undefined when there is none.
\<close>

fun find_key :: "string \<Rightarrow> player list \<Rightarrow> nat \<Rightarrow> nat option" where
  "find_key k [] i = None"
| "find_key k (p # ps) i = (if p_key p = k then Some i else find_key k ps (Suc i))"

definition getPlayerWithKey :: "game \<Rightarrow> string option \<Rightarrow> nat option" where
  "getPlayerWithKey g k = (case k of None \<Rightarrow> None | Some x \<Rightarrow> find_key x (players g) 0)"

text \<open>
  Modelled from the spec: \<open>getPlayer\<close> of \<open>Game\<close>, not part of the sources at hand; the
  player that the whose-turn pointer names, the player due to move.
\<close>

definition getPlayer :: "game \<Rightarrow> nat option" where
  "getPlayer g = getPlayerWithKey g (whosTurnKey g)"

text \<open>
  Modelled from the spec: \<open>nextPlayer\<close> of \<open>Game\<close>, not part of the sources at hand; the
  player after the one due to move in the roster, cyclically.
\<close>

definition nextPlayer :: "game \<Rightarrow> nat option" where
  "nextPlayer g = (case getPlayer g of None \<Rightarrow> None
                   | Some i \<Rightarrow> Some (Suc i mod length (players g)))"

text \<open>
  Modelled from the spec: \<open>finishTurn\<close> of \<open>Game\<close>, not part of the sources at hand; it
  appends the turn record, with the acting player's key, to the ledger. Persistence
  always succeeds and leaves no trace in the state.
\<close>

definition finishTurn :: "nat \<Rightarrow> turn \<Rightarrow> game \<Rightarrow> result" where
  "finishTurn player t g =
     (if valid_player g player
      then (None, g\<lparr>turns := turns g @ [t\<lparr>t_playerKey := Some (p_key (players g ! player))\<rparr>]\<rparr>)
      else (Some (TypeError ''player is undefined''), g))"

text \<open>
  Modelled from the spec: \<open>startTurn\<close> of \<open>Game\<close>, not part of the sources at hand; it
  hands the whose-turn pointer to the player, who carries on with the remaining time
  when one is given.
\<close>

definition startTurn :: "nat \<Rightarrow> int option \<Rightarrow> game \<Rightarrow> result" where
  "startTurn player timeout g =
     (if valid_player g player
      then (None, (case timeout of
                     None \<Rightarrow> g
                   | Some t \<Rightarrow> update_player player (\<lambda>p. p\<lparr>p_clock := t\<rparr>) g)
                  \<lparr>whosTurnKey := Some (p_key (players g ! player))\<rparr>)
      else (Some (TypeError ''player is undefined''), g))"

text \<open>
  Modelled from the spec: \<open>stopTheClock\<close> of \<open>Game\<close>, not part of the sources at hand; it
  stops the game clock.
\<close>

definition stopTheClock :: "game \<Rightarrow> game" where
  "stopTheClock g = g\<lparr>clockRunning := False\<rparr>"

text \<open>
  Modelled from the spec: \<open>startTheClock\<close> of \<open>Game\<close>, not part of the sources at hand; it
  starts the game clock.
\<close>

definition startTheClock :: "game \<Rightarrow> game" where
  "startTheClock g = g\<lparr>clockRunning := True\<rparr>"

text \<open>
  Modelled from the spec: \<open>notifyPlayer\<close> of the notifier, not part of the sources at
  hand; \<open>notifyPlayer(player, eventType, payload)\<close> sends one event to one player.
\<close>

definition notifyPlayer :: "nat \<Rightarrow> notify \<Rightarrow> payload \<Rightarrow> game \<Rightarrow> game" where
  "notifyPlayer player ty pay g =
     g\<lparr>outbox := outbox g @ [\<lparr>n_to = Some player, n_type = ty, n_payload = pay\<rparr>]\<rparr>"

text \<open>
  Modelled from the spec: \<open>notifyAll\<close> of the notifier, not part of the sources at hand;
  \<open>notifyAll(eventType, payload)\<close> sends one event to everybody.
\<close>

definition notifyAll :: "notify \<Rightarrow> payload \<Rightarrow> game \<Rightarrow> game" where
  "notifyAll ty pay g =
     g\<lparr>outbox := outbox g @ [\<lparr>n_to = None, n_type = ty, n_payload = pay\<rparr>]\<rparr>"

text \<open>
  Modelled from the spec: \<open>promiseDictionary\<close> of \<open>Game\<close>, not part of the sources at
  hand; it resolves to the dictionary collaborator, or rejects when the collaborator is
  unavailable.
\<close>

definition promiseDictionary :: "game \<Rightarrow> error + string list" where
  "promiseDictionary g =
     (case dictionaryService g of
        None \<Rightarrow> Inl (Rejected ''dictionary unavailable'')
      | Some d \<Rightarrow> Inr d)"

text \<open>
  Modelled from the spec: \<open>rackToBoard\<close> of \<open>Game\<close>, not part of the sources at hand; it
  moves the named tiles, one after the other, from the player's rack to the board. A
  tile that the rack cannot give stops the operation, and the tiles moved before it stay
  moved. The rack is the container that resolves blanks (\<open>Word\<close>).
\<close>

fun rackToBoard :: "placement list \<Rightarrow> nat \<Rightarrow> game \<Rightarrow> result" where
  "rackToBoard [] player g = (None, g)"
| "rackToBoard (pl # pls) player g =
     (case Word_removeTile (pl_tile pl) (p_rack (players g ! player)) of
        Inl e \<Rightarrow> (Some e, g)
      | Inr (t, rack') \<Rightarrow>
          rackToBoard pls player
            ((update_player player (\<lambda>p. p\<lparr>p_rack := rack'\<rparr>) g)
               \<lparr>board := (board g)((pl_col pl, pl_row pl) := Some t)\<rparr>))"

text \<open>
  Modelled from the spec: \<open>boardToRack\<close> of \<open>Game\<close>, not part of the sources at hand; it
  returns the placed tiles, one after the other, from the board to the player's rack. A
  position without a tile stops the operation.
\<close>

fun boardToRack :: "placement list \<Rightarrow> nat \<Rightarrow> game \<Rightarrow> result" where
  "boardToRack [] player g = (None, g)"
| "boardToRack (pl # pls) player g =
     (case board g (pl_col pl, pl_row pl) of
        None \<Rightarrow> (Some (AssertionError ''No tile''), g)
      | Some t \<Rightarrow>
          boardToRack pls player
            ((update_player player (\<lambda>p. p\<lparr>p_rack := addTile t (p_rack p)\<rparr>) g)
               \<lparr>board := (board g)((pl_col pl, pl_row pl) := None)\<rparr>))"

text \<open>
  Modelled from the spec: \<open>rackToBag\<close> of \<open>Game\<close>, not part of the sources at hand; it
  returns the replacement tiles, one after the other, from the player's rack to the bag.
  A tile that the rack cannot give stops the operation.
\<close>

fun rackToBag :: "tile list \<Rightarrow> nat \<Rightarrow> game \<Rightarrow> result" where
  "rackToBag [] player g = (None, g)"
| "rackToBag (t # ts) player g =
     (case Word_removeTile t (p_rack (players g ! player)) of
        Inl e \<Rightarrow> (Some e, g)
      | Inr (removed, rack') \<Rightarrow>
          rackToBag ts player
            ((update_player player (\<lambda>p. p\<lparr>p_rack := rack'\<rparr>) g)
               \<lparr>letterBag := letterBag g @ [removed]\<rparr>))"

section \<open>The command handlers\<close>

text \<open>
  Every handler takes the game and returns the game as it has left it together with the
  way it ended: \<open>None\<close> when the promise resolves, the error when it throws or the
  promise rejects. What a handler has changed before it throws stays changed.
\<close>

subsection \<open>\<open>play\<close>\<close>

text \<open>
  The words of the move that the dictionary does not know, in the order of the move.
\<close>

definition badWords :: "string list \<Rightarrow> move \<Rightarrow> string list" where
  "badWords dict mv = [w_word w. w \<leftarrow> m_words mv, \<not> hasWord dict (w_word w)]"

text \<open>
  The handler. After the score has been added, the object literal of the turn is
  evaluated before \<open>finishTurn\<close> is called; its property \<open>passes: prepasses\<close> reads an
  identifier that is declared nowhere (the file imports \<open>genKey\<close>, \<open>stringify\<close> and
  \<open>Game\<close>, and names \<open>assert\<close> as its only global), so the evaluation throws a
  \<open>ReferenceError\<close> there, and neither \<open>finishTurn\<close> nor \<open>startTurn(nextPlayer)\<close> runs.
\<close>

definition play :: "nat \<Rightarrow> move option \<Rightarrow> game \<Rightarrow> result" where
  "play player mv g =
     (case mv of
        None \<Rightarrow> (Some (AssertionError ''No move''), g)
      | Some m \<Rightarrow>
          if \<not> valid_player g player then (Some (AssertionError ''No player''), g)
          else
            (case (if truthy (dictionary g) \<and> \<not> isRobot g \<and> wordCheck g = REJECT
                   then (case promiseDictionary g of
                           Inl e \<Rightarrow> Some (Some e, g)
                         | Inr dict \<Rightarrow>
                             if badWords dict m \<noteq> []
                             then Some (None,
                                    notifyPlayer player Notify_REJECT
                                      (Reject_payload (p_key (players g ! player)) (badWords dict m)) g)
                             else None)
                   else None) of
               Some r \<Rightarrow> r
             | None \<Rightarrow>
                 (case m_placements m of
                    None \<Rightarrow> (Some (AssertionError ''No placements''), g)
                  | Some pls \<Rightarrow>
                      (case rackToBoard pls player g of
                         (Some e, g1) \<Rightarrow> (Some e, g1)
                       | (None, g1) \<Rightarrow>
                           (Some (ReferenceError ''prepasses is not defined''),
                            update_player player (\<lambda>p. p\<lparr>p_score := p_score p + m_score m\<rparr>) g1)))))"

subsection \<open>\<open>pause\<close> and \<open>unpause\<close>\<close>

text \<open>
  The payload of the notification carries the game's key and the player's name; its
  timestamp, the time of the call, is left out.
\<close>

definition pause :: "nat \<Rightarrow> game \<Rightarrow> result" where
  "pause player g =
     (if truthy (pausedBy g) then (None, g)
      else if \<not> valid_player g player
      then (Some (TypeError ''player is undefined''), stopTheClock g)
      else (None,
            notifyAll Notify_PAUSE (Pause_payload (key g) (p_name (players g ! player)))
              ((stopTheClock g)\<lparr>pausedBy := Some (p_name (players g ! player))\<rparr>)))"

definition unpause :: "nat \<Rightarrow> game \<Rightarrow> result" where
  "unpause player g =
     (if \<not> truthy (pausedBy g) then (None, g)
      else if \<not> valid_player g player then (Some (TypeError ''player is undefined''), g)
      else (None,
            startTheClock
              ((notifyAll Notify_UNPAUSE (Pause_payload (key g) (p_name (players g ! player))) g)
                 \<lparr>pausedBy := None\<rparr>)))"

subsection \<open>\<open>confirmGameOver\<close>\<close>

text \<open>
  \<open>Math.round\<close> rounds to the nearest integer, a half towards plus infinity. The clock
  (seconds) and the penalty rate (points per minute) are whole numbers; their product
  over sixty is taken in the reals.
\<close>

definition Math_round :: "real \<Rightarrow> int" where
  "Math_round x = \<lfloor>x + 1 / 2\<rfloor>"

definition timePoints :: "int \<Rightarrow> int \<Rightarrow> int" where
  "timePoints clock rate = Math_round (real_of_int (clock * rate) / 60)"

text \<open>
  \<open>deltas\<close> is an object keyed by the player's key: assigning a key that is there
  replaces the value in place, a new key goes last (the keys of players are not array
  indices, so \<open>Object.keys\<close> lists them in the order of insertion).
\<close>

fun obj_set :: "string \<Rightarrow> delta \<Rightarrow> (string \<times> delta) list \<Rightarrow> (string \<times> delta) list" where
  "obj_set k v [] = [(k, v)]"
| "obj_set k v ((k', v') # kvs) =
     (if k' = k then (k, v) # kvs else (k', v') # obj_set k v kvs)"

definition obj_set_tiles :: "string \<Rightarrow> int \<Rightarrow> (string \<times> delta) list \<Rightarrow> (string \<times> delta) list" where
  "obj_set_tiles k n kvs = map (\<lambda>(k', d). if k' = k then (k', d\<lparr>d_tiles := n\<rparr>) else (k', d)) kvs"

text \<open>
  The accumulators of the settlement: the player found with no tiles, the points
  remaining on racks, the deltas.
\<close>

type_synonym settlement = "nat option \<times> int \<times> (string \<times> delta) list"

text \<open>The body of the \<open>forEach\<close> callback, for the player at position \<open>i\<close>.\<close>

definition settle_time :: "timer \<Rightarrow> int \<Rightarrow> player \<Rightarrow> delta \<Rightarrow> delta" where
  "settle_time tt rate p d =
     (if tt = GAME \<and> p_clock p < 0
      then (if timePoints (p_clock p) rate < 0
            then d\<lparr>d_time := Some (timePoints (p_clock p) rate)\<rparr> else d)
      else d)"

definition settle_player :: "timer \<Rightarrow> int \<Rightarrow> nat \<Rightarrow> player \<Rightarrow> settlement \<Rightarrow> error + (player \<times> settlement)" where
  "settle_player tt rate i p a =
     (case a of (playerWithNoTiles, pointsRemainingOnRacks, deltas) \<Rightarrow>
        let d = \<lparr>d_key = p_key p, d_tiles = 0, d_tilesRemaining = None, d_time = None\<rparr> in
        if isEmpty (p_rack p)
        then (if playerWithNoTiles \<noteq> None
              then Inl (AssertionError ''Found more than one player with no tiles when finishing game'')
              else Inr (p, Some i, pointsRemainingOnRacks,
                        obj_set (p_key p) (settle_time tt rate p d) deltas))
        else Inr (p\<lparr>p_score := p_score p - rackScore (p_rack p)\<rparr>,
                  playerWithNoTiles,
                  pointsRemainingOnRacks + rackScore (p_rack p),
                  obj_set (p_key p)
                    (settle_time tt rate p
                       (d\<lparr>d_tiles := d_tiles d - rackScore (p_rack p),
                          d_tilesRemaining := Some (join '','' (lettersLeft (p_rack p)))\<rparr>))
                    deltas))"

text \<open>
  \<open>this.players.forEach\<close>: the players in order; a failed assertion leaves the players
  before it settled and the others untouched.
\<close>

fun settle_players :: "timer \<Rightarrow> int \<Rightarrow> nat \<Rightarrow> player list \<Rightarrow> settlement \<Rightarrow> error option \<times> player list \<times> settlement" where
  "settle_players tt rate i [] a = (None, [], a)"
| "settle_players tt rate i (p # ps) a =
     (case settle_player tt rate i p a of
        Inl e \<Rightarrow> (Some e, p # ps, a)
      | Inr (p', a') \<Rightarrow>
          (case settle_players tt rate (Suc i) ps a' of
             (r, ps', a'') \<Rightarrow> (r, p' # ps', a'')))"

definition confirmGameOver :: "nat \<Rightarrow> gstate option \<Rightarrow> game \<Rightarrow> result" where
  "confirmGameOver player endState g =
     (if state g \<noteq> PLAYING then (None, g)
      else
        let g1 = stopTheClock (g\<lparr>state := (case endState of None \<Rightarrow> GAME_OVER | Some s \<Rightarrow> s)\<rparr>) in
        (case settle_players (timerType g1) (timePenalty g1) 0 (players g1) (None, 0, []) of
           (Some e, ps, a) \<Rightarrow> (Some e, g1\<lparr>players := ps\<rparr>)
         | (None, ps, playerWithNoTiles, pointsRemainingOnRacks, deltas) \<Rightarrow>
             (case playerWithNoTiles of
                None \<Rightarrow>
                  finishTurn player
                    \<lparr>t_type = GAME_ENDED, t_playerKey = None, t_score = Deltas (map snd deltas),
                     t_placements = None, t_replacements = None, t_words = [],
                     t_challengerKey = None, t_nextToGoKey = None, t_penalty = None,
                     t_endState = endState, t_remainingTime = None\<rparr>
                    (g1\<lparr>players := ps\<rparr>)
              | Some w \<Rightarrow>
                  finishTurn player
                    \<lparr>t_type = GAME_ENDED, t_playerKey = None,
                     t_score = Deltas (map snd (obj_set_tiles (p_key (ps ! w)) pointsRemainingOnRacks deltas)),
                     t_placements = None, t_replacements = None, t_words = [],
                     t_challengerKey = None, t_nextToGoKey = None, t_penalty = None,
                     t_endState = endState, t_remainingTime = None\<rparr>
                    (update_player w (\<lambda>p. p\<lparr>p_score := p_score p + pointsRemainingOnRacks\<rparr>)
                       (g1\<lparr>players := ps\<rparr>)))))"

subsection \<open>\<open>takeBack\<close>\<close>

text \<open>
  The score of a \<open>PLAYED\<close> record is the number that \<open>play\<close> was given as the move's
  score.
\<close>

fun points :: "tscore \<Rightarrow> int" where
  "points (Points n) = n"
| "points _ = 0"

text \<open>
  \<open>rackToBag\<close> is called with \<open>previousMove.replacements\<close> as it is; a record without
  replacements has none to return. A previous player that the roster does not know
  makes the first use of \<open>prevPlayer\<close> fail.
\<close>

definition takeBack :: "nat \<Rightarrow> turnType \<Rightarrow> game \<Rightarrow> result" where
  "takeBack player type g =
     (case lastTurn g of
        None \<Rightarrow> (Some (AssertionError ''No previous move to take back''), g)
      | Some previousMove \<Rightarrow>
          if t_type previousMove \<noteq> PLAYED then (Some (AssertionError ''Cannot challenge''), g)
          else
            (case getPlayerWithKey g (t_playerKey previousMove) of
               None \<Rightarrow> (Some (TypeError ''prevPlayer is undefined''), g)
             | Some prevPlayer \<Rightarrow>
                 (case rackToBag (case t_replacements previousMove of None \<Rightarrow> [] | Some rs \<Rightarrow> rs)
                         prevPlayer g of
                    (Some e, g1) \<Rightarrow> (Some e, g1)
                  | (None, g1) \<Rightarrow>
                      (case (case t_placements previousMove of
                               None \<Rightarrow> (None, g1)
                             | Some pls \<Rightarrow> boardToRack pls prevPlayer g1) of
                         (Some e, g2) \<Rightarrow> (Some e, g2)
                       | (None, g2) \<Rightarrow>
                           let g3 = update_player prevPlayer
                                      (\<lambda>p. p\<lparr>p_score := p_score p - points (t_score previousMove)\<rparr>) g2
                           in
                           if \<not> valid_player g3 player
                           then (Some (TypeError ''player is undefined''), g3)
                           else
                             (case finishTurn prevPlayer
                                     \<lparr>t_type = type, t_playerKey = None,
                                      t_score = Points (- points (t_score previousMove)),
                                      t_placements = t_placements previousMove,
                                      t_replacements = t_replacements previousMove,
                                      t_words = [],
                                      t_challengerKey =
                                        (if type = CHALLENGE_WON
                                         then Some (p_key (players g3 ! player)) else None),
                                      t_nextToGoKey =
                                        (if type = CHALLENGE_WON then whosTurnKey g3
                                         else Some (p_key (players g3 ! player))),
                                      t_penalty = None, t_endState = None,
                                      t_remainingTime = None\<rparr> g3 of
                                (Some e, g4) \<Rightarrow> (Some e, g4)
                              | (None, g4) \<Rightarrow>
                                  if type = TOOK_BACK
                                  then startTurn player (t_remainingTime previousMove) g4
                                  else (None, g4))))))"

subsection \<open>\<open>challenge\<close>\<close>

text \<open>
  The words of the challenged play that fail the lookup. The handler calls
  \<open>dict.hasWord\<close> once for every word; when \<open>dict\<close> is the game, which has no such
  method, the first call throws.
\<close>

definition bad :: "resolved \<Rightarrow> turn \<Rightarrow> error + mword list" where
  "bad dict previousMove =
     (case dict of
        Dictionary d \<Rightarrow> Inr (filter (\<lambda>w. \<not> hasWord d (w_word w)) (t_words previousMove))
      | The_game \<Rightarrow>
          if t_words previousMove = [] then Inr []
          else Inl (TypeError ''dict.hasWord is not a function''))"

text \<open>The penalty of a failed challenge, from \<open>Challenge failed\<close> on.\<close>

definition challenge_failed :: "nat \<Rightarrow> nat \<Rightarrow> turn \<Rightarrow> game \<Rightarrow> result" where
  "challenge_failed challenger challenged previousMove g =
     (case getPlayer g of
        None \<Rightarrow> (Some (TypeError ''getPlayer() is undefined''), g)
      | Some current \<Rightarrow>
          (case nextPlayer g of
             None \<Rightarrow> (Some (TypeError ''nextPlayer() is undefined''), g)
           | Some nxt \<Rightarrow>
               let currPlayerKey = p_key (players g ! current) in
               if p_key (players g ! challenger) = currPlayerKey \<and> challengePenalty g = MISS
               then
                 (if (case t_replacements previousMove of None \<Rightarrow> True | Some rs \<Rightarrow> rs = [])
                     \<and> isEmpty (p_rack (players g ! challenged))
                  then confirmGameOver current (Some FAILED_CHALLENGE) g
                  else
                    (case finishTurn challenged
                            \<lparr>t_type = CHALLENGE_LOST, t_playerKey = None, t_score = NoScore,
                             t_placements = None, t_replacements = None, t_words = [],
                             t_challengerKey = Some (p_key (players g ! challenger)),
                             t_nextToGoKey = Some (p_key (players g ! nxt)),
                             t_penalty = Some MISS, t_endState = None,
                             t_remainingTime = None\<rparr> g of
                       (Some e, g1) \<Rightarrow> (Some e, g1)
                     | (None, g1) \<Rightarrow> startTurn nxt None g1))
               else
                 let lostPoints =
                       (case challengePenalty g of
                          MISS \<Rightarrow> 0
                        | PER_TURN \<Rightarrow> - penaltyPoints g
                        | PER_WORD \<Rightarrow> - penaltyPoints g * int (length (t_words previousMove))
                        | Penalty_NONE \<Rightarrow> 0);
                     g1 = (case challengePenalty g of
                             MISS \<Rightarrow> update_player challenger (\<lambda>p. p\<lparr>p_missNextTurn := True\<rparr>) g
                           | _ \<Rightarrow> g);
                     g2 = update_player challenger (\<lambda>p. p\<lparr>p_score := p_score p + lostPoints\<rparr>) g1
                 in finishTurn challenged
                      \<lparr>t_type = CHALLENGE_LOST, t_playerKey = None, t_score = Points lostPoints,
                       t_placements = None, t_replacements = None, t_words = [],
                       t_challengerKey = Some (p_key (players g ! challenger)),
                       t_nextToGoKey = Some currPlayerKey,
                       t_penalty = None, t_endState = None, t_remainingTime = None\<rparr> g2))"

text \<open>The handler given to \<open>then\<close>.\<close>

definition challenge_then :: "nat \<Rightarrow> nat \<Rightarrow> turn \<Rightarrow> resolved \<Rightarrow> game \<Rightarrow> result" where
  "challenge_then challenger challenged previousMove dict g =
     (case bad dict previousMove of
        Inl e \<Rightarrow> (Some e, g)
      | Inr b \<Rightarrow>
          if b \<noteq> [] then takeBack challenger CHALLENGE_WON g
          else challenge_failed challenger challenged previousMove g)"

text \<open>
  The handler: \<open>promiseDictionary().catch(...).then(...)\<close>. When the dictionary promise
  rejects, the \<open>catch\<close> handler takes the play back; the promise it returns resolves to
  the game, and the \<open>then\<close> handler that follows in the chain runs with that value as
  \<open>dict\<close>.
\<close>

definition challenge :: "nat \<Rightarrow> nat \<Rightarrow> game \<Rightarrow> result" where
  "challenge challenger challenged g =
     (if \<not> (valid_player g challenger \<and> valid_player g challenged)
      then (Some (TypeError ''player is undefined''), g)
      else if p_key (players g ! challenger) = p_key (players g ! challenged)
      then (Some (AssertionError ''Cannot challenge your own play''), g)
      else if \<not> length (turns g) > 0
      then (Some (AssertionError ''No previous move to challenge''), g)
      else
        (case lastTurn g of
           None \<Rightarrow> (Some (TypeError ''previousMove is undefined''), g)
         | Some previousMove \<Rightarrow>
             if t_type previousMove \<noteq> PLAYED then (Some (AssertionError ''Cannot challenge''), g)
             else if Some (p_key (players g ! challenged)) \<noteq> t_playerKey previousMove
             then (Some (AssertionError ''Last player challenge mismatch''), g)
             else
               (case promiseDictionary g of
                  Inl e \<Rightarrow>
                    (case takeBack challenger CHALLENGE_WON g of
                       (Some e', g1) \<Rightarrow> (Some e', g1)
                     | (None, g1) \<Rightarrow> challenge_then challenger challenged previousMove The_game g1)
                | Inr d \<Rightarrow> challenge_then challenger challenged previousMove (Dictionary d) g)))"

subsection \<open>\<open>dispatchCommand\<close>\<close>

text \<open>
  The command identifiers that the switch names, and any other identifier. \<open>undo\<close>
  (with \<open>popTurn\<close>) and \<open>redo\<close> belong to another mixin and are parameters here.
\<close>

datatype command =
    CONFIRM_GAME_OVER | PAUSE | UNPAUSE | PLAY | TAKE_BACK | UNDO | REDO
  | Unrecognized string

definition dispatchCommand ::
  "(game \<Rightarrow> result) \<Rightarrow> (move option \<Rightarrow> game \<Rightarrow> result) \<Rightarrow>
   command \<Rightarrow> nat \<Rightarrow> move option \<Rightarrow> game \<Rightarrow> result" where
  "dispatchCommand undo redo command player args g =
     (case command of
        CONFIRM_GAME_OVER \<Rightarrow> confirmGameOver player (Some GAME_OVER) g
      | PAUSE \<Rightarrow> pause player g
      | UNPAUSE \<Rightarrow> unpause player g
      | PLAY \<Rightarrow> play player args g
      | TAKE_BACK \<Rightarrow> takeBack player TOOK_BACK g
      | UNDO \<Rightarrow> undo g
      | REDO \<Rightarrow> redo args g
      | Unrecognized c \<Rightarrow> (Some (AssertionError (''unrecognized command: '' @ c)), g))"

text \<open>
  The handlers of the mixin and of the undo mixin, by name, and the handler that the
  switch calls for a command.
\<close>

datatype handler =
    H_play | H_flip | H_pause | H_unpause | H_confirmGameOver | H_takeBack
  | H_challenge | H_anotherGame | H_allow | H_undo | H_redo

fun routed :: "command \<Rightarrow> handler option" where
  "routed CONFIRM_GAME_OVER = Some H_confirmGameOver"
| "routed PAUSE = Some H_pause"
| "routed UNPAUSE = Some H_unpause"
| "routed PLAY = Some H_play"
| "routed TAKE_BACK = Some H_takeBack"
| "routed UNDO = Some H_undo"
| "routed REDO = Some H_redo"
| "routed (Unrecognized c) = None"

section \<open>Example tiles\<close>

definition tA :: tile where "tA = \<lparr>letter = ''A'', score = 1, isBlank = False\<rparr>"
definition tBlank :: tile where "tBlank = \<lparr>letter = '' '', score = 0, isBlank = True\<rparr>"
definition tQ :: tile where "tQ = \<lparr>letter = ''Q'', score = 10, isBlank = False\<rparr>"

section \<open>An example game\<close>

text \<open>
  Two players; Bob has gone ninety seconds over his time. The dictionary knows two
  words.
\<close>

definition alice :: player where
  "alice = \<lparr>p_key = ''a1'', p_name = ''Alice'', p_score = 10,
            p_rack = [Some tA, Some tBlank, None], p_clock = 30, p_missNextTurn = False\<rparr>"

definition bob :: player where
  "bob = \<lparr>p_key = ''b2'', p_name = ''Bob'', p_score = 20,
          p_rack = [Some tQ, None, None], p_clock = - 90, p_missNextTurn = False\<rparr>"

definition game0 :: game where
  "game0 = \<lparr>key = ''g0'', board = (\<lambda>_. None), letterBag = [], players = [alice, bob],
            turns = [], state = PLAYING, whosTurnKey = Some ''a1'', pausedBy = None,
            clockRunning = True, challengePenalty = PER_WORD, penaltyPoints = 5,
            timerType = GAME, timePenalty = 5, wordCheck = REJECT,
            dictionary = Some ''Oxford'', isRobot = False,
            dictionaryService = Some [''CAT'', ''AT''], outbox = []\<rparr>"

definition move_bad :: move where
  "move_bad = \<lparr>m_placements = Some [\<lparr>pl_tile = tA, pl_col = 7, pl_row = 7\<rparr>],
               m_words = [\<lparr>w_word = ''ZZQX'', w_score = 3\<rparr>, \<lparr>w_word = ''AT'', w_score = 2\<rparr>],
               m_score = 5\<rparr>"

definition move_good :: move where
  "move_good = \<lparr>m_placements = Some [\<lparr>pl_tile = tA, pl_col = 7, pl_row = 7\<rparr>],
                m_words = [\<lparr>w_word = ''AT'', w_score = 2\<rparr>], m_score = 2\<rparr>"

text \<open>
  The game after Bob has played the tile T for seven points, making CAT and AT, and has
  drawn the Q; Alice is due to move.
\<close>

definition tT :: tile where "tT = \<lparr>letter = ''T'', score = 1, isBlank = False\<rparr>"

definition played_by_bob :: turn where
  "played_by_bob =
     \<lparr>t_type = PLAYED, t_playerKey = Some ''b2'', t_score = Points 7,
      t_placements = Some [\<lparr>pl_tile = tT, pl_col = 7, pl_row = 8\<rparr>],
      t_replacements = Some [tQ],
      t_words = [\<lparr>w_word = ''CAT'', w_score = 5\<rparr>, \<lparr>w_word = ''AT'', w_score = 2\<rparr>],
      t_challengerKey = None, t_nextToGoKey = None, t_penalty = None, t_endState = None,
      t_remainingTime = None\<rparr>"

definition game1 :: game where
  "game1 = game0\<lparr>board := (\<lambda>_. None)((7, 8) := Some tT), turns := [played_by_bob]\<rparr>"

text \<open>
  The game after Bob has played his last tile with the bag empty, under the penalty
  MISS; Alice is due to move.
\<close>

definition bob_out :: player where
  "bob_out = bob\<lparr>p_rack := [None, None, None]\<rparr>"

definition last_play_by_bob :: turn where
  "last_play_by_bob = played_by_bob\<lparr>t_replacements := Some []\<rparr>"

definition game2 :: game where
  "game2 = game0\<lparr>board := (\<lambda>_. None)((7, 8) := Some tT), players := [alice, bob_out],
                 turns := [last_play_by_bob], challengePenalty := MISS\<rparr>"

text \<open>The same game when Alice's rack is empty as well.\<close>

definition alice_out :: player where
  "alice_out = alice\<lparr>p_rack := [None, None, None]\<rparr>"

definition game3 :: game where
  "game3 = game2\<lparr>players := [alice_out, bob_out]\<rparr>"

text \<open>The game after Bob's play when the dictionary cannot be reached.\<close>

definition game1_offline :: game where
  "game1_offline = game1\<lparr>dictionaryService := None\<rparr>"

text \<open>The same, under the penalty PER_TURN, when the record of Bob's play lists no words.\<close>

definition game1_wordless :: game where
  "game1_wordless = game1\<lparr>dictionaryService := None, challengePenalty := PER_TURN,
                           turns := [played_by_bob\<lparr>t_words := []\<rparr>]\<rparr>"

section \<open>Notions used to state the settlement\<close>

text \<open>
  What the settlement is expected to do to one player's score before the pot is paid
  out, the points forfeited by the players whose rack is not empty, the number of
  players whose rack is empty, and the time entry expected in a player's delta: the
  rounded product when the game is timed as a whole, the clock is below zero and the
  rounded product is below zero, none otherwise.
\<close>

definition settled :: "player \<Rightarrow> player" where
  "settled p = (if isEmpty (p_rack p) then p
                else p\<lparr>p_score := p_score p - rackScore (p_rack p)\<rparr>)"

definition forfeited :: "player list \<Rightarrow> int" where
  "forfeited ps = sum_list (map (\<lambda>p. rackScore (p_rack p))
                              (filter (\<lambda>p. \<not> isEmpty (p_rack p)) ps))"

definition emptyRacks :: "player list \<Rightarrow> nat" where
  "emptyRacks ps = length (filter (\<lambda>p. isEmpty (p_rack p)) ps)"



section \<open>Properties of the containers\<close>

lemma holds_letter_simps [simp]:
  "holds_letter l [] = False"
  "holds_letter l (None # sqs) = holds_letter l sqs"
  "holds_letter l (Some t # sqs) = (letter t = l \<or> holds_letter l sqs)"
  by (auto simp: holds_letter_def)

lemma holds_blank_simps [simp]:
  "holds_blank [] = False"
  "holds_blank (None # sqs) = holds_blank sqs"
  "holds_blank (Some t # sqs) = (isBlank t \<or> holds_blank sqs)"
  by (auto simp: holds_blank_def)

lemma Pot_from_absent:
  "\<not> holds_letter l sqs \<Longrightarrow> Pot_findSquare_from l sqs i sq = sq"
  by (induction l sqs i sq rule: Pot_findSquare_from.induct) auto

lemma Pot_from_sound:
  "Pot_findSquare_from l sqs i sq = Some (k, t) \<Longrightarrow>
   sq = Some (k, t) \<or> (i \<le> k \<and> k - i < length sqs \<and> sqs ! (k - i) = Some t \<and> letter t = l)"
proof (induction l sqs i sq rule: Pot_findSquare_from.induct)
  case (1 l i square)
  then show ?case by simp
next
  case (2 l sqs i square)
  then show ?case by (auto simp: Suc_diff_le)
next
  case (3 l u sqs i square)
  then show ?case by (auto simp: Suc_diff_le split: if_splits)
qed

lemma Pot_from_present:
  "holds_letter l sqs \<Longrightarrow> \<exists>k t. Pot_findSquare_from l sqs i sq = Some (k, t) \<and> letter t = l"
proof (induction l sqs i sq rule: Pot_findSquare_from.induct)
  case (3 l u sqs i square)
  then show ?case by (cases "holds_letter l sqs") (auto simp: Pot_from_absent)
qed auto

lemma Word_from_absent:
  "\<not> holds_letter l sqs \<Longrightarrow> \<not> holds_blank sqs \<Longrightarrow> Word_findSquare_from l sqs i sq = sq"
  by (induction l sqs i sq rule: Word_findSquare_from.induct) auto

lemma Word_from_taken:
  "\<not> holds_letter l sqs \<Longrightarrow> sq \<noteq> None \<Longrightarrow> Word_findSquare_from l sqs i sq = sq"
  by (induction l sqs i sq rule: Word_findSquare_from.induct) auto

lemma Word_from_sound:
  "Word_findSquare_from l sqs i sq = Some (k, t) \<Longrightarrow>
   sq = Some (k, t) \<or> (i \<le> k \<and> k - i < length sqs \<and> sqs ! (k - i) = Some t
      \<and> (letter t = l \<or> isBlank t))"
proof (induction l sqs i sq rule: Word_findSquare_from.induct)
  case (1 l i square)
  then show ?case by simp
next
  case (2 l sqs i square)
  then show ?case by (auto simp: Suc_diff_le)
next
  case (3 l u sqs i square)
  then show ?case by (auto simp: Suc_diff_le split: if_splits)
qed

lemma Word_from_present:
  "holds_letter l sqs \<Longrightarrow> \<exists>k t. Word_findSquare_from l sqs i sq = Some (k, t) \<and> letter t = l"
proof (induction l sqs i sq rule: Word_findSquare_from.induct)
  case (3 l u sqs i square)
  then show ?case by (cases "holds_letter l sqs") (auto simp: Word_from_taken)
qed auto

lemma Word_from_blank:
  "\<not> holds_letter l sqs \<Longrightarrow> holds_blank sqs \<Longrightarrow>
   \<exists>k t. Word_findSquare_from l sqs i None = Some (k, t) \<and> isBlank t"
proof (induction sqs arbitrary: i)
  case Nil
  then show ?case by simp
next
  case (Cons a sqs)
  then show ?case by (cases a) (auto simp: Word_from_taken)
qed

lemma Word_findSquare_exact:
  assumes "holds_letter l s"
  shows "\<exists>i t. Word_findSquare l s = Some (i, t) \<and> i < length s \<and> s ! i = Some t \<and> letter t = l"
proof -
  from Word_from_present [OF assms, of 0 None]
  obtain k t where h: "Word_findSquare_from l s 0 None = Some (k, t)" "letter t = l" by blast
  from Word_from_sound [OF h(1)] have "k < length s \<and> s ! k = Some t" by simp
  with h show ?thesis by (simp add: Word_findSquare_def)
qed

lemma Word_findSquare_blank:
  assumes "\<not> holds_letter l s" "holds_blank s"
  shows "\<exists>i t. Word_findSquare l s = Some (i, t) \<and> i < length s \<and> s ! i = Some t \<and> isBlank t
           \<and> letter t \<noteq> l"
proof -
  from Word_from_blank [OF assms, of 0]
  obtain k t where h: "Word_findSquare_from l s 0 None = Some (k, t)" "isBlank t" by blast
  from Word_from_sound [OF h(1)] have p: "k < length s \<and> s ! k = Some t" by simp
  then have "Some t \<in> set s" by (metis nth_mem)
  with assms(1) have "letter t \<noteq> l" by (auto simp: holds_letter_def)
  with h p show ?thesis by (simp add: Word_findSquare_def)
qed

lemma Pot_findSquare_exact:
  assumes "holds_letter l s"
  shows "\<exists>i t. Pot_findSquare l s = Some (i, t) \<and> i < length s \<and> s ! i = Some t \<and> letter t = l"
proof -
  from Pot_from_present [OF assms, of 0 None]
  obtain k t where h: "Pot_findSquare_from l s 0 None = Some (k, t)" "letter t = l" by blast
  from Pot_from_sound [OF h(1)] have "k < length s \<and> s ! k = Some t" by simp
  with h show ?thesis by (simp add: Pot_findSquare_def)
qed

text \<open>
  C9. \<open>removeTile\<close>, for a container \<open>s\<close> and a requested tile \<open>r\<close>. On a rack
  (\<open>Word\<close>): when a tile with the requested letter is held, such a tile is taken from
  its square and returned; when none is held but a blank is, a blank is taken and
  returned with its letter overwritten to the requested one; when neither is held the
  call fails with the not-found error. On an exchange container (\<open>Pot\<close>): a tile with
  the requested letter is taken and returned when one is held, and the call fails
  otherwise, whether a blank is held or not.
\<close>

theorem removeTile_spec:
  "(holds_letter (letter r) s \<longrightarrow>
      (\<exists>i t. i < length s \<and> s ! i = Some t \<and> letter t = letter r
         \<and> Word_removeTile r s = Inr (t, s[i := None])))
   \<and> (\<not> holds_letter (letter r) s \<and> holds_blank s \<longrightarrow>
      (\<exists>i t. i < length s \<and> s ! i = Some t \<and> isBlank t \<and> letter t \<noteq> letter r
         \<and> Word_removeTile r s = Inr (t\<lparr>letter := letter r\<rparr>, s[i := None])))
   \<and> (\<not> holds_letter (letter r) s \<and> \<not> holds_blank s \<longrightarrow>
      Word_removeTile r s = Inl (CannotFind (letter r)))
   \<and> (holds_letter (letter r) s \<longrightarrow>
      (\<exists>i t. i < length s \<and> s ! i = Some t \<and> letter t = letter r
         \<and> Pot_removeTile r s = Inr (t, s[i := None])))
   \<and> (\<not> holds_letter (letter r) s \<longrightarrow> Pot_removeTile r s = Inl (CannotFind (letter r)))"
proof (intro conjI impI)
  assume "holds_letter (letter r) s"
  from Word_findSquare_exact [OF this]
  obtain i t where h: "Word_findSquare (letter r) s = Some (i, t)" "i < length s"
    "s ! i = Some t" "letter t = letter r" by blast
  have "t\<lparr>letter := letter r\<rparr> = t" using h(4) by simp
  then have "Word_removeTile r s = Inr (t, s[i := None])"
    using h(1) by (simp add: Word_removeTile_def unplaceTile_def)
  with h show "\<exists>i t. i < length s \<and> s ! i = Some t \<and> letter t = letter r
         \<and> Word_removeTile r s = Inr (t, s[i := None])" by blast
next
  assume "\<not> holds_letter (letter r) s \<and> holds_blank s"
  then have a: "\<not> holds_letter (letter r) s" "holds_blank s" by simp_all
  from Word_findSquare_blank [OF a]
  obtain i t where h: "Word_findSquare (letter r) s = Some (i, t)" "i < length s"
    "s ! i = Some t" "isBlank t" "letter t \<noteq> letter r" by blast
  then have "Word_removeTile r s = Inr (t\<lparr>letter := letter r\<rparr>, s[i := None])"
    by (simp add: Word_removeTile_def unplaceTile_def)
  with h show "\<exists>i t. i < length s \<and> s ! i = Some t \<and> isBlank t \<and> letter t \<noteq> letter r
         \<and> Word_removeTile r s = Inr (t\<lparr>letter := letter r\<rparr>, s[i := None])" by blast
next
  assume "\<not> holds_letter (letter r) s \<and> \<not> holds_blank s"
  then show "Word_removeTile r s = Inl (CannotFind (letter r))"
    by (simp add: Word_removeTile_def Word_findSquare_def Word_from_absent)
next
  assume "holds_letter (letter r) s"
  from Pot_findSquare_exact [OF this]
  obtain i t where h: "Pot_findSquare (letter r) s = Some (i, t)" "i < length s"
    "s ! i = Some t" "letter t = letter r" by blast
  then have "Pot_removeTile r s = Inr (t, s[i := None])"
    by (simp add: Pot_removeTile_def unplaceTile_def)
  with h show "\<exists>i t. i < length s \<and> s ! i = Some t \<and> letter t = letter r
         \<and> Pot_removeTile r s = Inr (t, s[i := None])" by blast
next
  assume "\<not> holds_letter (letter r) s"
  then show "Pot_removeTile r s = Inl (CannotFind (letter r))"
    by (simp add: Pot_removeTile_def Pot_findSquare_def Pot_from_absent)
qed

theorem removeTile_spec_witness:
  "holds_letter ''A'' [Some tBlank, Some tA, None]
   \<and> Word_removeTile tA [Some tBlank, Some tA, None] = Inr (tA, [Some tBlank, None, None])
   \<and> Pot_removeTile tA [Some tBlank, Some tA, None] = Inr (tA, [Some tBlank, None, None])
   \<and> \<not> holds_letter ''Q'' [Some tBlank, Some tA, None] \<and> holds_blank [Some tBlank, Some tA, None]
   \<and> Word_removeTile tQ [Some tBlank, Some tA, None]
       = Inr (tBlank\<lparr>letter := ''Q''\<rparr>, [None, Some tA, None])
   \<and> Pot_removeTile tQ [Some tBlank, Some tA, None] = Inl (CannotFind ''Q'')
   \<and> \<not> holds_letter ''Q'' [Some tA, None] \<and> \<not> holds_blank [Some tA, None]
   \<and> Word_removeTile tQ [Some tA, None] = Inl (CannotFind ''Q'')"
proof -
  have a: "holds_letter (letter tA) [Some tBlank, Some tA, None]" by (simp add: tA_def)
  have b: "\<not> holds_letter (letter tQ) [Some tBlank, Some tA, None] \<and> holds_blank [Some tBlank, Some tA, None]"
    by (simp add: tA_def tQ_def tBlank_def)
  have c: "\<not> holds_letter (letter tQ) [Some tA, None] \<and> \<not> holds_blank [Some tA, None]"
    by (simp add: tA_def tQ_def)
  have e1: "Word_removeTile tA [Some tBlank, Some tA, None] = Inr (tA, [Some tBlank, None, None])"
    by (simp add: Word_removeTile_def Word_findSquare_def unplaceTile_def tA_def tBlank_def)
  have e2: "Pot_removeTile tA [Some tBlank, Some tA, None] = Inr (tA, [Some tBlank, None, None])"
    by (simp add: Pot_removeTile_def Pot_findSquare_def unplaceTile_def tA_def tBlank_def)
  have e3: "Word_removeTile tQ [Some tBlank, Some tA, None]
       = Inr (tBlank\<lparr>letter := ''Q''\<rparr>, [None, Some tA, None])"
    by (simp add: Word_removeTile_def Word_findSquare_def unplaceTile_def tA_def tBlank_def tQ_def)
  from removeTile_spec [of tA "[Some tBlank, Some tA, None]"] a
  have "\<exists>i t. Word_removeTile tA [Some tBlank, Some tA, None] = Inr (t, [Some tBlank, Some tA, None][i := None])"
    by blast
  moreover from removeTile_spec [of tQ "[Some tBlank, Some tA, None]"] b
  have "Pot_removeTile tQ [Some tBlank, Some tA, None] = Inl (CannotFind ''Q'')"
    by (simp add: tQ_def)
  moreover from removeTile_spec [of tQ "[Some tA, None]"] c
  have "Word_removeTile tQ [Some tA, None] = Inl (CannotFind ''Q'')"
    by (simp add: tQ_def)
  ultimately show ?thesis using a b c e1 e2 e3 by (simp add: tA_def tQ_def)
qed

section \<open>Rejected plays and the dispatcher\<close>

text \<open>
  C1. In a game with a dictionary configured, the word check REJECT and the robot flag
  off, a play whose move has a word that the dictionary does not know resolves with the
  game unchanged except for one notification: a REJECT, addressed to the acting player,
  carrying the player's key and the unknown words. The board, every rack and score, and
  the ledger are as before.
\<close>

theorem play_reject:
  assumes "truthy (dictionary g)" and "\<not> isRobot g" and "wordCheck g = REJECT"
    and "valid_player g player" and "dictionaryService g = Some dict"
    and "\<exists>w \<in> set (m_words m). \<not> hasWord dict (w_word w)"
  shows "play player (Some m) g =
           (None, g\<lparr>outbox := outbox g @
              [\<lparr>n_to = Some player, n_type = Notify_REJECT,
                n_payload = Reject_payload (p_key (players g ! player)) (badWords dict m)\<rparr>]\<rparr>)
         \<and> board (snd (play player (Some m) g)) = board g
         \<and> players (snd (play player (Some m) g)) = players g
         \<and> turns (snd (play player (Some m) g)) = turns g
         \<and> set (badWords dict m) = {w_word w | w. w \<in> set (m_words m) \<and> \<not> hasWord dict (w_word w)}
         \<and> badWords dict m \<noteq> []"
proof -
  have s: "set (badWords dict m) = {w_word w | w. w \<in> set (m_words m) \<and> \<not> hasWord dict (w_word w)}"
    by (auto simp: badWords_def)
  with assms(6) have ne: "badWords dict m \<noteq> []" by fastforce
  have "play player (Some m) g =
           (None, g\<lparr>outbox := outbox g @
              [\<lparr>n_to = Some player, n_type = Notify_REJECT,
                n_payload = Reject_payload (p_key (players g ! player)) (badWords dict m)\<rparr>]\<rparr>)"
    using assms(1-5) ne by (simp add: play_def promiseDictionary_def notifyPlayer_def)
  with s ne show ?thesis by simp
qed

theorem play_reject_witness:
  "truthy (dictionary game0) \<and> \<not> isRobot game0 \<and> wordCheck game0 = REJECT
   \<and> valid_player game0 0 \<and> dictionaryService game0 = Some [''CAT'', ''AT'']
   \<and> (\<exists>w \<in> set (m_words move_bad). \<not> hasWord [''CAT'', ''AT''] (w_word w))
   \<and> play 0 (Some move_bad) game0 =
       (None, game0\<lparr>outbox :=
          [\<lparr>n_to = Some 0, n_type = Notify_REJECT, n_payload = Reject_payload ''a1'' [''ZZQX'']\<rparr>]\<rparr>)"
proof -
  have h: "truthy (dictionary game0)" "\<not> isRobot game0" "wordCheck game0 = REJECT"
    "valid_player game0 0" "dictionaryService game0 = Some [''CAT'', ''AT'']"
    "\<exists>w \<in> set (m_words move_bad). \<not> hasWord [''CAT'', ''AT''] (w_word w)"
    by (simp_all add: game0_def truthy_def valid_player_def move_bad_def hasWord_def)
  have b: "badWords [''CAT'', ''AT''] move_bad = [''ZZQX'']"
    by (simp add: badWords_def move_bad_def hasWord_def)
  have k: "p_key (players game0 ! 0) = ''a1''" "outbox game0 = []"
    by (simp_all add: game0_def alice_def)
  from play_reject [OF h] h show ?thesis by (simp add: b k)
qed

text \<open>
  C10. The switch of \<open>dispatchCommand\<close> calls a handler for exactly seven command
  identifiers: \<open>confirmGameOver\<close> (with GAME_OVER), \<open>pause\<close>, \<open>unpause\<close>, \<open>play\<close> (with the
  arguments as the move), \<open>takeBack\<close> (with TOOK_BACK), \<open>undo\<close> and \<open>redo\<close>. No identifier
  is routed to \<open>challenge\<close>, \<open>anotherGame\<close> or \<open>allow\<close>. For any other identifier the
  dispatcher fails with an assertion and the game is as before.
\<close>

theorem dispatchCommand_routes:
  "dispatchCommand undo redo CONFIRM_GAME_OVER player args g = confirmGameOver player (Some GAME_OVER) g
   \<and> dispatchCommand undo redo PAUSE player args g = pause player g
   \<and> dispatchCommand undo redo UNPAUSE player args g = unpause player g
   \<and> dispatchCommand undo redo PLAY player args g = play player args g
   \<and> dispatchCommand undo redo TAKE_BACK player args g = takeBack player TOOK_BACK g
   \<and> dispatchCommand undo redo UNDO player args g = undo g
   \<and> dispatchCommand undo redo REDO player args g = redo args g
   \<and> dispatchCommand undo redo (Unrecognized c) player args g
       = (Some (AssertionError (''unrecognized command: '' @ c)), g)
   \<and> (routed cmd = None) = (cmd \<notin> {CONFIRM_GAME_OVER, PAUSE, UNPAUSE, PLAY, TAKE_BACK, UNDO, REDO})
   \<and> routed cmd \<notin> {Some H_challenge, Some H_anotherGame, Some H_allow}
   \<and> (cmd \<notin> {CONFIRM_GAME_OVER, PAUSE, UNPAUSE, PLAY, TAKE_BACK, UNDO, REDO})
       = (\<exists>c'. cmd = Unrecognized c')"
  by (cases cmd) (simp_all add: dispatchCommand_def)

section \<open>Failed challenges\<close>

lemma lastTurn_Some: "lastTurn g = Some t \<Longrightarrow> turns g \<noteq> []"
  by (auto simp: lastTurn_def split: if_splits)

lemma nextPlayer_Some: "getPlayer g = Some c \<Longrightarrow> nextPlayer g = Some (Suc c mod length (players g))"
  by (simp add: nextPlayer_def)

lemma bad_Dictionary_none:
  "\<forall>w \<in> set (t_words pm). hasWord d (w_word w) \<Longrightarrow> bad (Dictionary d) pm = Inr []"
  by (simp add: bad_def)

lemma challenge_reaches_then:
  assumes "valid_player g challenger" "valid_player g challenged"
    and "p_key (players g ! challenger) \<noteq> p_key (players g ! challenged)"
    and "lastTurn g = Some pm" and "t_type pm = PLAYED"
    and "t_playerKey pm = Some (p_key (players g ! challenged))"
    and "dictionaryService g = Some d"
  shows "challenge challenger challenged g = challenge_then challenger challenged pm (Dictionary d) g"
  using assms lastTurn_Some [OF assms(4)]
  by (simp add: challenge_def promiseDictionary_def)

lemma challenge_reaches_failed:
  assumes "valid_player g challenger" "valid_player g challenged"
    and "p_key (players g ! challenger) \<noteq> p_key (players g ! challenged)"
    and "lastTurn g = Some pm" and "t_type pm = PLAYED"
    and "t_playerKey pm = Some (p_key (players g ! challenged))"
    and "dictionaryService g = Some d"
    and "\<forall>w \<in> set (t_words pm). hasWord d (w_word w)"
  shows "challenge challenger challenged g = challenge_failed challenger challenged pm g"
  using challenge_reaches_then [OF assms(1-7)] bad_Dictionary_none [OF assms(8)]
  by (simp add: challenge_then_def)

text \<open>
  C6. A failed challenge (the dictionary is available and knows every word of the
  challenged play) under the penalty PER_TURN, PER_WORD, or MISS with a challenger whose
  key is not that of the player due to move. The handler resolves; the challenger's
  score goes down by the configured points (PER_TURN), by the configured points times
  the number of words of the challenged play (PER_WORD), or stays (MISS); the challenger
  is tagged to miss the next turn under MISS only; no other player changes; one
  CHALLENGE_LOST record, with the challenged player's key, the challenger's key and the
  lost points, is appended; the whose-turn pointer, the board and the bag are as before.
\<close>

theorem challenge_failed_points:
  assumes "valid_player g challenger" and "valid_player g challenged"
    and "p_key (players g ! challenger) \<noteq> p_key (players g ! challenged)"
    and "lastTurn g = Some pm" and "t_type pm = PLAYED"
    and "t_playerKey pm = Some (p_key (players g ! challenged))"
    and "dictionaryService g = Some d"
    and "\<forall>w \<in> set (t_words pm). hasWord d (w_word w)"
    and "getPlayer g = Some current"
    and "challengePenalty g = PER_TURN \<or> challengePenalty g = PER_WORD
         \<or> (challengePenalty g = MISS
             \<and> p_key (players g ! challenger) \<noteq> p_key (players g ! current))"
    and "lost = (if challengePenalty g = PER_TURN then penaltyPoints g
                 else if challengePenalty g = PER_WORD
                 then penaltyPoints g * int (length (t_words pm)) else 0)"
    and "g' = snd (challenge challenger challenged g)"
  shows "fst (challenge challenger challenged g) = None
    \<and> p_score (players g' ! challenger) = p_score (players g ! challenger) - lost
    \<and> p_missNextTurn (players g' ! challenger)
        = (challengePenalty g = MISS \<or> p_missNextTurn (players g ! challenger))
    \<and> p_rack (players g' ! challenger) = p_rack (players g ! challenger)
    \<and> length (players g') = length (players g)
    \<and> (\<forall>i. i \<noteq> challenger \<longrightarrow> players g' ! i = players g ! i)
    \<and> turns g' = turns g @
         [\<lparr>t_type = CHALLENGE_LOST, t_playerKey = Some (p_key (players g ! challenged)),
           t_score = Points (- lost), t_placements = None, t_replacements = None,
           t_words = [], t_challengerKey = Some (p_key (players g ! challenger)),
           t_nextToGoKey = Some (p_key (players g ! current)), t_penalty = None,
           t_endState = None, t_remainingTime = None\<rparr>]
    \<and> whosTurnKey g' = whosTurnKey g \<and> board g' = board g \<and> letterBag g' = letterBag g
    \<and> state g' = state g"
proof -
  have c: "challenge challenger challenged g = challenge_failed challenger challenged pm g"
    by (rule challenge_reaches_failed [OF assms(1-8)])
  have n: "nextPlayer g = Some (Suc current mod length (players g))"
    by (rule nextPlayer_Some [OF assms(9)])
  have v: "challenger < length (players g)" "challenged < length (players g)"
    using assms(1,2) by (simp_all add: valid_player_def)
  have ne: "challenger \<noteq> challenged" using assms(3) by auto
  from assms(10) show ?thesis
  proof (elim disjE)
    assume p: "challengePenalty g = PER_TURN"
    show ?thesis unfolding assms(12) c using assms(9) n v ne p assms(11)
      by (simp add: challenge_failed_def finishTurn_def valid_player_def update_player_def Let_def)
  next
    assume p: "challengePenalty g = PER_WORD"
    show ?thesis unfolding assms(12) c using assms(9) n v ne p assms(11)
      by (simp add: challenge_failed_def finishTurn_def valid_player_def update_player_def Let_def)
  next
    assume p: "challengePenalty g = MISS
             \<and> p_key (players g ! challenger) \<noteq> p_key (players g ! current)"
    show ?thesis unfolding assms(12) c using assms(9) n v ne p assms(11)
      by (simp add: challenge_failed_def finishTurn_def valid_player_def update_player_def Let_def)
  qed
qed

theorem challenge_failed_points_witness:
  "valid_player game1 0 \<and> valid_player game1 1
   \<and> p_key (players game1 ! 0) \<noteq> p_key (players game1 ! 1)
   \<and> lastTurn game1 = Some played_by_bob \<and> t_type played_by_bob = PLAYED
   \<and> t_playerKey played_by_bob = Some (p_key (players game1 ! 1))
   \<and> dictionaryService game1 = Some [''CAT'', ''AT'']
   \<and> map w_word (t_words played_by_bob) = [''CAT'', ''AT'']
   \<and> hasWord [''CAT'', ''AT''] ''CAT'' \<and> hasWord [''CAT'', ''AT''] ''AT''
   \<and> getPlayer game1 = Some 0
   \<and> challengePenalty game1 = PER_WORD \<and> penaltyPoints game1 = 5
   \<and> length (t_words played_by_bob) = 2
   \<and> p_score (players game1 ! 0) = 10
   \<and> fst (challenge 0 1 game1) = None
   \<and> p_score (players (snd (challenge 0 1 game1)) ! 0) = 0
   \<and> length (turns (snd (challenge 0 1 game1))) = 2
   \<and> t_type (last (turns (snd (challenge 0 1 game1)))) = CHALLENGE_LOST
   \<and> whosTurnKey (snd (challenge 0 1 game1)) = Some ''a1''"
proof -
  have h: "valid_player game1 0" "valid_player game1 1"
    "p_key (players game1 ! 0) \<noteq> p_key (players game1 ! 1)"
    "lastTurn game1 = Some played_by_bob" "t_type played_by_bob = PLAYED"
    "t_playerKey played_by_bob = Some (p_key (players game1 ! 1))"
    "dictionaryService game1 = Some [''CAT'', ''AT'']"
    "\<forall>w \<in> set (t_words played_by_bob). hasWord [''CAT'', ''AT''] (w_word w)"
    "getPlayer game1 = Some 0"
    "challengePenalty game1 = PER_TURN \<or> challengePenalty game1 = PER_WORD
         \<or> (challengePenalty game1 = MISS
             \<and> p_key (players game1 ! 0) \<noteq> p_key (players game1 ! 0))"
    by (simp_all add: game1_def game0_def valid_player_def alice_def bob_def lastTurn_def
        played_by_bob_def hasWord_def getPlayer_def getPlayerWithKey_def)
  have k: "challengePenalty game1 = PER_WORD" "penaltyPoints game1 = 5"
    "length (t_words played_by_bob) = 2" "p_score (players game1 ! 0) = 10"
    "whosTurnKey game1 = Some ''a1''" "turns game1 = [played_by_bob]"
    by (simp_all add: game1_def game0_def played_by_bob_def alice_def)
  have w: "map w_word (t_words played_by_bob) = [''CAT'', ''AT'']"
    "hasWord [''CAT'', ''AT''] ''CAT''" "hasWord [''CAT'', ''AT''] ''AT''"
    by (simp_all add: played_by_bob_def hasWord_def)
  from challenge_failed_points [OF h refl refl] h(1-7,9) w show ?thesis
    by (simp add: k)
qed

lemma confirmGameOver_turns:
  "turns (snd (confirmGameOver p e g)) = turns g
   \<or> (\<exists>r. turns (snd (confirmGameOver p e g)) = turns g @ [r] \<and> t_type r = GAME_ENDED
          \<and> t_endState r = e)"
  by (auto simp: confirmGameOver_def finishTurn_def stopTheClock_def update_player_def
      valid_player_def Let_def split: prod.splits option.splits)

lemma confirmGameOver_state:
  "state g = PLAYING \<Longrightarrow> state (snd (confirmGameOver p (Some s) g)) = s"
  by (auto simp: confirmGameOver_def finishTurn_def stopTheClock_def update_player_def
      valid_player_def Let_def split: prod.splits option.splits)

text \<open>
  C7. A failed challenge under the penalty MISS, by a challenger whose key is that of
  the player due to move, when the challenged play drew no replacement tiles and the
  challenged player's rack is empty: the challenge is the settlement
  \<open>confirmGameOver\<close>, for the player due to move, with the end state FAILED_CHALLENGE.
  A game that was being played is left in the state FAILED_CHALLENGE, and the ledger
  gains at most one record, a GAME_ENDED one: no CHALLENGE_LOST record is appended.
\<close>

theorem challenge_failed_ends_game:
  assumes "valid_player g challenger" and "valid_player g challenged"
    and "p_key (players g ! challenger) \<noteq> p_key (players g ! challenged)"
    and "lastTurn g = Some pm" and "t_type pm = PLAYED"
    and "t_playerKey pm = Some (p_key (players g ! challenged))"
    and "dictionaryService g = Some d"
    and "\<forall>w \<in> set (t_words pm). hasWord d (w_word w)"
    and "getPlayer g = Some current"
    and "challengePenalty g = MISS"
    and "p_key (players g ! challenger) = p_key (players g ! current)"
    and "t_replacements pm = None \<or> t_replacements pm = Some []"
    and "isEmpty (p_rack (players g ! challenged))"
  shows "challenge challenger challenged g = confirmGameOver current (Some FAILED_CHALLENGE) g
    \<and> (state g = PLAYING \<longrightarrow> state (snd (challenge challenger challenged g)) = FAILED_CHALLENGE)
    \<and> (turns (snd (challenge challenger challenged g)) = turns g
        \<or> (\<exists>r. turns (snd (challenge challenger challenged g)) = turns g @ [r]
               \<and> t_type r = GAME_ENDED \<and> t_endState r = Some FAILED_CHALLENGE))"
proof -
  have c: "challenge challenger challenged g = challenge_failed challenger challenged pm g"
    by (rule challenge_reaches_failed [OF assms(1-8)])
  have n: "nextPlayer g = Some (Suc current mod length (players g))"
    by (rule nextPlayer_Some [OF assms(9)])
  have r: "(case t_replacements pm of None \<Rightarrow> True | Some rs \<Rightarrow> rs = [])"
    using assms(12) by auto
  have "challenge_failed challenger challenged pm g
          = confirmGameOver current (Some FAILED_CHALLENGE) g"
    using assms(9,10,11,13) n r by (simp add: challenge_failed_def)
  with c have e: "challenge challenger challenged g
                    = confirmGameOver current (Some FAILED_CHALLENGE) g" by simp
  show ?thesis unfolding e
    using confirmGameOver_turns [of current "Some FAILED_CHALLENGE" g]
      confirmGameOver_state [of g current FAILED_CHALLENGE] by simp
qed

theorem challenge_failed_ends_game_witness:
  "valid_player game2 0 \<and> valid_player game2 1
   \<and> p_key (players game2 ! 0) \<noteq> p_key (players game2 ! 1)
   \<and> lastTurn game2 = Some last_play_by_bob \<and> t_type last_play_by_bob = PLAYED
   \<and> t_playerKey last_play_by_bob = Some (p_key (players game2 ! 1))
   \<and> dictionaryService game2 = Some [''CAT'', ''AT'']
   \<and> map w_word (t_words last_play_by_bob) = [''CAT'', ''AT'']
   \<and> hasWord [''CAT'', ''AT''] ''CAT'' \<and> hasWord [''CAT'', ''AT''] ''AT''
   \<and> getPlayer game2 = Some 0 \<and> challengePenalty game2 = MISS
   \<and> p_key (players game2 ! 0) = p_key (players game2 ! 0)
   \<and> t_replacements last_play_by_bob = Some []
   \<and> isEmpty (p_rack (players game2 ! 1))
   \<and> state game2 = PLAYING
   \<and> challenge 0 1 game2 = confirmGameOver 0 (Some FAILED_CHALLENGE) game2
   \<and> state (snd (challenge 0 1 game2)) = FAILED_CHALLENGE"
proof -
  have h: "valid_player game2 0" "valid_player game2 1"
    "p_key (players game2 ! 0) \<noteq> p_key (players game2 ! 1)"
    "lastTurn game2 = Some last_play_by_bob" "t_type last_play_by_bob = PLAYED"
    "t_playerKey last_play_by_bob = Some (p_key (players game2 ! 1))"
    "dictionaryService game2 = Some [''CAT'', ''AT'']"
    "\<forall>w \<in> set (t_words last_play_by_bob). hasWord [''CAT'', ''AT''] (w_word w)"
    "getPlayer game2 = Some 0" "challengePenalty game2 = MISS"
    "p_key (players game2 ! 0) = p_key (players game2 ! 0)"
    "t_replacements last_play_by_bob = None \<or> t_replacements last_play_by_bob = Some []"
    "isEmpty (p_rack (players game2 ! 1))"
    by (simp_all add: game2_def game0_def valid_player_def alice_def bob_def bob_out_def
        lastTurn_def last_play_by_bob_def played_by_bob_def hasWord_def getPlayer_def
        getPlayerWithKey_def isEmpty_def tiles_def)
  have k: "state game2 = PLAYING" "t_replacements last_play_by_bob = Some []"
    by (simp_all add: game2_def game0_def last_play_by_bob_def)
  have w: "map w_word (t_words last_play_by_bob) = [''CAT'', ''AT'']"
    "hasWord [''CAT'', ''AT''] ''CAT''" "hasWord [''CAT'', ''AT''] ''AT''"
    by (simp_all add: last_play_by_bob_def played_by_bob_def hasWord_def)
  from challenge_failed_ends_game [OF h] h(1-7,9-11,13) k w show ?thesis
    by blast
qed

section \<open>The settlement at the end of the game\<close>

lemma Math_round_sixtieth: "Math_round (real_of_int n / 60) = (n + 30) div 60"
proof -
  have "Math_round (real_of_int n / 60) = \<lfloor>real_of_int (n + 30) / real_of_int 60\<rfloor>"
    unfolding Math_round_def by (rule arg_cong [where f = floor]) simp
  also have "\<dots> = (n + 30) div 60" by (rule floor_divide_of_int_eq)
  finally show ?thesis .
qed

lemma timePoints_int: "timePoints c r = (c * r + 30) div 60"
  unfolding timePoints_def by (rule Math_round_sixtieth)


lemma emptyRacks_simps [simp]:
  "emptyRacks [] = 0"
  "emptyRacks (p # ps) = (if isEmpty (p_rack p) then Suc (emptyRacks ps) else emptyRacks ps)"
  by (simp_all add: emptyRacks_def)

lemma forfeited_simps [simp]:
  "forfeited [] = 0"
  "forfeited (p # ps) = (if isEmpty (p_rack p) then forfeited ps else rackScore (p_rack p) + forfeited ps)"
  by (simp_all add: forfeited_def)

lemma settle_players_fst:
  "fst (settle_players tt rate i ps (nt, pot, ds)) =
     (if emptyRacks ps + (if nt = None then 0 else 1) \<le> 1 then None
      else Some (AssertionError ''Found more than one player with no tiles when finishing game''))"
proof (induction ps arbitrary: i nt pot ds)
  case Nil
  then show ?case by simp
next
  case (Cons p ps)
  show ?case
  proof (cases "isEmpty (p_rack p)")
    case True
    then show ?thesis
      using Cons [of "Suc i" "Some i" pot "obj_set (p_key p) (settle_time tt rate p \<lparr>d_key = p_key p, d_tiles = 0, d_tilesRemaining = None, d_time = None\<rparr>) ds"]
      by (cases nt) (simp_all add: settle_player_def case_prod_beta)
  next
    case False
    then show ?thesis
      using Cons [of "Suc i" nt]
      by (simp add: settle_player_def Let_def case_prod_beta)
  qed
qed

lemma settle_players_ok:
  "settle_players tt rate i ps (nt, pot, ds) = (None, ps', nt', pot', ds') \<Longrightarrow>
   ps' = map settled ps \<and> pot' = pot + forfeited ps
   \<and> (emptyRacks ps = 0 \<and> nt' = nt
       \<or> (\<exists>w. nt' = Some (i + w) \<and> w < length ps \<and> isEmpty (p_rack (ps ! w))))"
proof (induction ps arbitrary: i nt pot ds ps' nt' pot' ds')
  case Nil
  then show ?case by simp
next
  case (Cons p ps)
  show ?case
  proof (cases "isEmpty (p_rack p)")
    case True
    with Cons.prems have n: "nt = None"
      by (auto simp: settle_player_def split: if_splits prod.splits)
    let ?ds = "obj_set (p_key p) (settle_time tt rate p \<lparr>d_key = p_key p, d_tiles = 0, d_tilesRemaining = None, d_time = None\<rparr>) ds"
    obtain r qs a b c where e: "settle_players tt rate (Suc i) ps (Some i, pot, ?ds) = (r, qs, a, b, c)"
      by (metis prod_cases5)
    with Cons.prems True n have f: "r = None" "ps' = p # qs" "nt' = a" "pot' = b" "ds' = c"
      by (simp_all add: settle_player_def)
    from Cons.IH [OF e [unfolded f(1)]]
    have g: "qs = map settled ps" "b = pot + forfeited ps"
      "emptyRacks ps = 0 \<and> a = Some i \<or> (\<exists>w. a = Some (Suc i + w) \<and> w < length ps \<and> isEmpty (p_rack (ps ! w)))"
      by simp_all
    from g(3) have "\<exists>w. a = Some (i + w) \<and> w < length (p # ps) \<and> isEmpty (p_rack ((p # ps) ! w))"
    proof
      assume "emptyRacks ps = 0 \<and> a = Some i"
      then have "a = Some (i + 0) \<and> 0 < length (p # ps) \<and> isEmpty (p_rack ((p # ps) ! 0))"
        using True by simp
      then show ?thesis by blast
    next
      assume "\<exists>w. a = Some (Suc i + w) \<and> w < length ps \<and> isEmpty (p_rack (ps ! w))"
      then obtain w where "a = Some (Suc i + w)" "w < length ps" "isEmpty (p_rack (ps ! w))" by blast
      then have "a = Some (i + Suc w) \<and> Suc w < length (p # ps) \<and> isEmpty (p_rack ((p # ps) ! Suc w))"
        by simp
      then show ?thesis by blast
    qed
    with f g True show ?thesis by (simp add: settled_def)
  next
    case False
    let ?ds = "obj_set (p_key p) (settle_time tt rate p
                       (\<lparr>d_key = p_key p, d_tiles = 0, d_tilesRemaining = None, d_time = None\<rparr>
                         \<lparr>d_tiles := 0 - rackScore (p_rack p),
                          d_tilesRemaining := Some (join '','' (lettersLeft (p_rack p)))\<rparr>)) ds"
    obtain r qs a b c where e: "settle_players tt rate (Suc i) ps (nt, pot + rackScore (p_rack p), ?ds) = (r, qs, a, b, c)"
      by (metis prod_cases5)
    with Cons.prems False have f: "r = None" "ps' = p\<lparr>p_score := p_score p - rackScore (p_rack p)\<rparr> # qs" "nt' = a" "pot' = b" "ds' = c"
      by (simp_all add: settle_player_def Let_def)
    from Cons.IH [OF e [unfolded f(1)]]
    have g: "qs = map settled ps" "b = pot + rackScore (p_rack p) + forfeited ps"
      "emptyRacks ps = 0 \<and> a = nt \<or> (\<exists>w. a = Some (Suc i + w) \<and> w < length ps \<and> isEmpty (p_rack (ps ! w)))"
      by simp_all
    from g(3) have "emptyRacks (p # ps) = 0 \<and> a = nt \<or> (\<exists>w. a = Some (i + w) \<and> w < length (p # ps) \<and> isEmpty (p_rack ((p # ps) ! w)))"
    proof
      assume "emptyRacks ps = 0 \<and> a = nt"
      then show ?thesis using False by simp
    next
      assume "\<exists>w. a = Some (Suc i + w) \<and> w < length ps \<and> isEmpty (p_rack (ps ! w))"
      then obtain w where "a = Some (Suc i + w)" "w < length ps" "isEmpty (p_rack (ps ! w))" by blast
      then have "a = Some (i + Suc w) \<and> Suc w < length (p # ps) \<and> isEmpty (p_rack ((p # ps) ! Suc w))"
        by simp
      then show ?thesis by blast
    qed
    with f g False show ?thesis by (simp add: settled_def)
  qed
qed

lemma emptyRacks_unique:
  "emptyRacks ps \<le> 1 \<Longrightarrow> j < length ps \<Longrightarrow> k < length ps \<Longrightarrow>
   isEmpty (p_rack (ps ! j)) \<Longrightarrow> isEmpty (p_rack (ps ! k)) \<Longrightarrow> j = k"
proof (induction ps arbitrary: j k)
  case Nil
  then show ?case by simp
next
  case (Cons p ps)
  have z: "emptyRacks ps = 0 \<Longrightarrow> n < length ps \<Longrightarrow> \<not> isEmpty (p_rack (ps ! n))" for n
    by (auto simp: emptyRacks_def filter_empty_conv)
  show ?case
  proof (cases "isEmpty (p_rack p)")
    case True
    with Cons.prems(1) have "emptyRacks ps = 0" by simp
    with z Cons.prems show ?thesis by (cases j; cases k) auto
  next
    case False
    with Cons show ?thesis by (cases j; cases k) auto
  qed
qed

lemma emptyRacks_none:
  "emptyRacks ps = 0 \<Longrightarrow> n < length ps \<Longrightarrow> \<not> isEmpty (p_rack (ps ! n))"
  by (auto simp: emptyRacks_def filter_empty_conv)

lemma finishTurn_players [simp]: "players (snd (finishTurn p t g)) = players g"
  by (simp add: finishTurn_def)

lemma finishTurn_fst: "fst (finishTurn p t g) = (if valid_player g p then None else Some (TypeError ''player is undefined''))"
  by (simp add: finishTurn_def)

lemma confirmGameOver_fails:
  assumes "state g = PLAYING" and "2 \<le> emptyRacks (players g)"
  shows "fst (confirmGameOver player endState g)
           = Some (AssertionError ''Found more than one player with no tiles when finishing game'')"
proof -
  obtain r ps' a where e:
    "settle_players (timerType g) (timePenalty g) 0 (players g) (None, 0, []) = (r, ps', a)"
    by (metis prod_cases3)
  from settle_players_fst [of "timerType g" "timePenalty g" 0 "players g" None 0 "[]"] assms(2) e
  have "r = Some (AssertionError ''Found more than one player with no tiles when finishing game'')"
    by simp
  with e assms(1) show ?thesis
    by (simp add: confirmGameOver_def stopTheClock_def)
qed

lemma confirmGameOver_players:
  assumes "state g = PLAYING" and "emptyRacks (players g) \<le> 1"
  shows "(emptyRacks (players g) = 0
          \<and> players (snd (confirmGameOver player endState g)) = map settled (players g))
       \<or> (\<exists>w < length (players g). isEmpty (p_rack (players g ! w))
          \<and> players (snd (confirmGameOver player endState g))
              = (map settled (players g))
                  [w := (players g ! w)\<lparr>p_score := p_score (players g ! w) + forfeited (players g)\<rparr>])"
    and "fst (confirmGameOver player endState g)
           = (if valid_player g player then None else Some (TypeError ''player is undefined''))"
proof -
  obtain r ps' nt' pot' ds' where e:
    "settle_players (timerType g) (timePenalty g) 0 (players g) (None, 0, []) = (r, ps', nt', pot', ds')"
    by (metis prod_cases5)
  from settle_players_fst [of "timerType g" "timePenalty g" 0 "players g" None 0 "[]"] assms(2) e
  have r: "r = None" by simp
  from settle_players_ok [OF e [unfolded r]]
  have k: "ps' = map settled (players g)" "pot' = forfeited (players g)"
    "emptyRacks (players g) = 0 \<and> nt' = None
     \<or> (\<exists>w. nt' = Some w \<and> w < length (players g) \<and> isEmpty (p_rack (players g ! w)))"
    by simp_all
  show "fst (confirmGameOver player endState g)
           = (if valid_player g player then None else Some (TypeError ''player is undefined''))"
    using assms(1) e r k(1)
    by (cases nt') (simp_all add: confirmGameOver_def stopTheClock_def finishTurn_fst
        valid_player_def update_player_def)
  from k(3) show "(emptyRacks (players g) = 0
          \<and> players (snd (confirmGameOver player endState g)) = map settled (players g))
       \<or> (\<exists>w < length (players g). isEmpty (p_rack (players g ! w))
          \<and> players (snd (confirmGameOver player endState g))
              = (map settled (players g))
                  [w := (players g ! w)\<lparr>p_score := p_score (players g ! w) + forfeited (players g)\<rparr>])"
  proof
    assume a: "emptyRacks (players g) = 0 \<and> nt' = None"
    then have "players (snd (confirmGameOver player endState g)) = map settled (players g)"
      using assms(1) e r k(1) by (simp add: confirmGameOver_def stopTheClock_def)
    with a show ?thesis by simp
  next
    assume "\<exists>w. nt' = Some w \<and> w < length (players g) \<and> isEmpty (p_rack (players g ! w))"
    then obtain w where w: "nt' = Some w" "w < length (players g)" "isEmpty (p_rack (players g ! w))"
      by blast
    then have "settled (players g ! w) = players g ! w" by (simp add: settled_def)
    then have "players (snd (confirmGameOver player endState g))
              = (map settled (players g))
                  [w := (players g ! w)\<lparr>p_score := p_score (players g ! w) + forfeited (players g)\<rparr>]"
      using assms(1) e r k(1,2) w
      by (simp add: confirmGameOver_def stopTheClock_def update_player_def)
    with w show ?thesis by blast
  qed
qed

text \<open>
  C3. The settlement of a game that is being played. When two or more players hold an
  empty rack, \<open>confirmGameOver\<close> fails with the assertion. When at most one does, every
  player whose rack is not empty loses the rack's point value, the player whose rack
  is empty (if there is one) gains the points forfeited by all the others, the racks
  are as before, and the handler resolves when the confirming player is one of the
  game's.
\<close>

theorem confirmGameOver_settles:
  assumes "state g = PLAYING" and "g' = snd (confirmGameOver player endState g)"
  shows "(2 \<le> emptyRacks (players g) \<longrightarrow>
            fst (confirmGameOver player endState g)
              = Some (AssertionError ''Found more than one player with no tiles when finishing game''))
    \<and> (emptyRacks (players g) \<le> 1 \<longrightarrow>
         length (players g') = length (players g)
         \<and> (\<forall>i < length (players g).
               p_score (players g' ! i)
                 = (if isEmpty (p_rack (players g ! i))
                    then p_score (players g ! i) + forfeited (players g)
                    else p_score (players g ! i) - rackScore (p_rack (players g ! i)))
               \<and> p_rack (players g' ! i) = p_rack (players g ! i))
         \<and> (valid_player g player \<longrightarrow> fst (confirmGameOver player endState g) = None))"
proof (intro conjI impI)
  assume "2 \<le> emptyRacks (players g)"
  then show "fst (confirmGameOver player endState g)
              = Some (AssertionError ''Found more than one player with no tiles when finishing game'')"
    by (rule confirmGameOver_fails [OF assms(1)])
next
  assume a: "emptyRacks (players g) \<le> 1"
  note p = confirmGameOver_players [OF assms(1) a, of player endState, folded assms(2)]
  from p(1) show "length (players g') = length (players g)" by auto
  show "\<forall>i < length (players g).
               p_score (players g' ! i)
                 = (if isEmpty (p_rack (players g ! i))
                    then p_score (players g ! i) + forfeited (players g)
                    else p_score (players g ! i) - rackScore (p_rack (players g ! i)))
               \<and> p_rack (players g' ! i) = p_rack (players g ! i)"
  proof (intro allI impI)
    fix i assume i: "i < length (players g)"
    from p(1) show "p_score (players g' ! i)
                 = (if isEmpty (p_rack (players g ! i))
                    then p_score (players g ! i) + forfeited (players g)
                    else p_score (players g ! i) - rackScore (p_rack (players g ! i)))
               \<and> p_rack (players g' ! i) = p_rack (players g ! i)"
    proof
      assume "emptyRacks (players g) = 0 \<and> players g' = map settled (players g)"
      with i emptyRacks_none [of "players g" i] show ?thesis by (simp add: settled_def)
    next
      assume "\<exists>w < length (players g). isEmpty (p_rack (players g ! w))
          \<and> players g' = (map settled (players g))
                  [w := (players g ! w)\<lparr>p_score := p_score (players g ! w) + forfeited (players g)\<rparr>]"
      then obtain w where w: "w < length (players g)" "isEmpty (p_rack (players g ! w))"
        "players g' = (map settled (players g))
                  [w := (players g ! w)\<lparr>p_score := p_score (players g ! w) + forfeited (players g)\<rparr>]"
        by blast
      show ?thesis
      proof (cases "i = w")
        case True
        with w i show ?thesis by simp
      next
        case False
        with emptyRacks_unique [OF a i w(1) _ w(2)] have "\<not> isEmpty (p_rack (players g ! i))" by blast
        with False w i show ?thesis by (simp add: settled_def)
      qed
    qed
  qed
next
  assume "emptyRacks (players g) \<le> 1" and "valid_player g player"
  then show "fst (confirmGameOver player endState g) = None"
    using confirmGameOver_players(2) [OF assms(1), of player endState] by simp
qed

lemma example_racks:
  "isEmpty (p_rack alice) = False" "isEmpty (p_rack bob_out) = True"
  "isEmpty (p_rack alice_out) = True" "isEmpty (p_rack bob) = False"
  "rackScore (p_rack alice) = 1" "rackScore (p_rack bob) = 10"
  by (simp_all add: alice_def bob_def bob_out_def alice_out_def isEmpty_def tiles_def
      rackScore_def tA_def tBlank_def tQ_def)

lemma example_players:
  "players game2 = [alice, bob_out]" "players game3 = [alice_out, bob_out]"
  "state game2 = PLAYING" "state game3 = PLAYING" "players game0 = [alice, bob]"
  "state game0 = PLAYING" "timerType game0 = GAME" "timePenalty game0 = 5"
  by (simp_all add: game2_def game3_def game0_def)

theorem confirmGameOver_settles_witness:
  "state game2 = PLAYING \<and> emptyRacks (players game2) \<le> 1 \<and> valid_player game2 0
   \<and> p_score (players game2 ! 0) = 10 \<and> p_score (players game2 ! 1) = 20
   \<and> fst (confirmGameOver 0 (Some GAME_OVER) game2) = None
   \<and> p_score (players (snd (confirmGameOver 0 (Some GAME_OVER) game2)) ! 0) = 9
   \<and> p_score (players (snd (confirmGameOver 0 (Some GAME_OVER) game2)) ! 1) = 21
   \<and> state game3 = PLAYING \<and> 2 \<le> emptyRacks (players game3)
   \<and> fst (confirmGameOver 0 (Some GAME_OVER) game3)
       = Some (AssertionError ''Found more than one player with no tiles when finishing game'')"
proof -
  have a1: "emptyRacks (players game2) \<le> 1" "forfeited (players game2) = 1"
    by (simp_all add: example_players example_racks)
  have a2: "valid_player game2 0"
    "p_score (players game2 ! 0) = 10" "p_score (players game2 ! 1) = 20"
    "length (players game2) = 2"
    by (simp_all add: example_players valid_player_def alice_def bob_out_def bob_def)
  note a = a1(1) a2(1,2,3) a1(2) a2(4)
  have b: "2 \<le> emptyRacks (players game3)"
    by (simp add: example_players example_racks)
  note t = confirmGameOver_settles [of game2 _ 0 "Some GAME_OVER", OF example_players(3) refl]
  from t a(1,2) have r: "fst (confirmGameOver 0 (Some GAME_OVER) game2) = None" by blast
  from t a(1) have
    "\<forall>i < length (players game2).
        p_score (players (snd (confirmGameOver 0 (Some GAME_OVER) game2)) ! i)
          = (if isEmpty (p_rack (players game2 ! i))
             then p_score (players game2 ! i) + forfeited (players game2)
             else p_score (players game2 ! i) - rackScore (p_rack (players game2 ! i)))"
    by blast
  then have s: "p_score (players (snd (confirmGameOver 0 (Some GAME_OVER) game2)) ! 0) = 9"
    "p_score (players (snd (confirmGameOver 0 (Some GAME_OVER) game2)) ! 1) = 21"
    using a(3,4,5) by (simp_all add: example_players example_racks)
  from confirmGameOver_settles [of game3 _ 0 "Some GAME_OVER", OF example_players(4) refl] b
  have f: "fst (confirmGameOver 0 (Some GAME_OVER) game3)
       = Some (AssertionError ''Found more than one player with no tiles when finishing game'')"
    by blast
  from a b r s f example_players(3,4) show ?thesis by blast
qed

section \<open>The time penalty in the settlement\<close>









section \<open>Accepted plays and take-back\<close>

lemma rackToBoard_ledger:
  "turns (snd (rackToBoard pls player g)) = turns g
   \<and> whosTurnKey (snd (rackToBoard pls player g)) = whosTurnKey g
   \<and> letterBag (snd (rackToBoard pls player g)) = letterBag g"
  by (induction pls player g rule: rackToBoard.induct)
     (auto simp: update_player_def split: sum.splits)

lemma play_never_records:
  "turns (snd (play player mv g)) = turns g
   \<and> whosTurnKey (snd (play player mv g)) = whosTurnKey g
   \<and> letterBag (snd (play player mv g)) = letterBag g"
proof -
  have "turns (snd (case rackToBoard pls player g of
                      (None, g1) \<Rightarrow> (Some e, update_player player f g1)
                    | (Some e', g1) \<Rightarrow> (Some e', g1))) = turns g
     \<and> whosTurnKey (snd (case rackToBoard pls player g of
                      (None, g1) \<Rightarrow> (Some e, update_player player f g1)
                    | (Some e', g1) \<Rightarrow> (Some e', g1))) = whosTurnKey g
     \<and> letterBag (snd (case rackToBoard pls player g of
                      (None, g1) \<Rightarrow> (Some e, update_player player f g1)
                    | (Some e', g1) \<Rightarrow> (Some e', g1))) = letterBag g" for pls e f
    using rackToBoard_ledger [of pls player g]
    by (cases "rackToBoard pls player g") (auto simp: update_player_def split: option.splits)
  then show ?thesis
    by (simp add: play_def notifyPlayer_def split: option.splits sum.splits)
qed

lemma play_move_good:
  "play 0 (Some move_good) game0 =
     (Some (ReferenceError ''prepasses is not defined''),
      game0\<lparr>players := [alice\<lparr>p_rack := [None, Some tBlank, None], p_score := 12\<rparr>, bob],
            board := (\<lambda>_. None)((7, 7) := Some tA)\<rparr>)"
  by (simp add: play_def game0_def move_good_def truthy_def valid_player_def
      promiseDictionary_def badWords_def hasWord_def update_player_def alice_def
      Word_removeTile_def Word_findSquare_def unplaceTile_def tA_def tBlank_def)

text \<open>
  C4. A valid play that passes the validation, in the example game: Alice plays the
  tile A for two points, making AT, which the dictionary knows. The tile goes from her
  rack to the board and the score is added; then the handler stops with the
  \<open>ReferenceError\<close>: the ledger is still empty, the turn is still Alice's, and no
  tile has been drawn.
\<close>

theorem play_stops_before_record:
  "badWords [''CAT'', ''AT''] move_good = []
   \<and> fst (play 0 (Some move_good) game0) = Some (ReferenceError ''prepasses is not defined'')
   \<and> p_rack (players (snd (play 0 (Some move_good) game0)) ! 0) = [None, Some tBlank, None]
   \<and> board (snd (play 0 (Some move_good) game0)) (7, 7) = Some tA
   \<and> p_score (players (snd (play 0 (Some move_good) game0)) ! 0) = 12
   \<and> turns (snd (play 0 (Some move_good) game0)) = []
   \<and> whosTurnKey (snd (play 0 (Some move_good) game0)) = Some ''a1''
   \<and> letterBag (snd (play 0 (Some move_good) game0)) = []"
  unfolding play_move_good
  by (simp add: badWords_def move_good_def hasWord_def game0_def)

text \<open>
  C2. The same play followed at once by \<open>takeBack\<close>: the ledger holds no record of the
  play, so \<open>takeBack\<close> fails its first assertion and leaves the game as the play left
  it. The score is twelve where it was ten, the tile is on the board and not on the
  rack.
\<close>

theorem takeBack_after_play:
  "takeBack 0 TOOK_BACK (snd (play 0 (Some move_good) game0))
     = (Some (AssertionError ''No previous move to take back''),
        snd (play 0 (Some move_good) game0))
   \<and> p_score (players game0 ! 0) = 10
   \<and> p_score (players (snd (play 0 (Some move_good) game0)) ! 0) = 12
   \<and> board game0 (7, 7) = None
   \<and> board (snd (play 0 (Some move_good) game0)) (7, 7) = Some tA
   \<and> p_rack (players game0 ! 0) = [Some tA, Some tBlank, None]
   \<and> p_rack (players (snd (play 0 (Some move_good) game0)) ! 0) = [None, Some tBlank, None]"
  unfolding play_move_good
  by (simp add: takeBack_def lastTurn_def game0_def alice_def)

section \<open>Successful challenges\<close>

lemma challenge_bad_word:
  assumes "valid_player g challenger" and "valid_player g challenged"
    and "p_key (players g ! challenger) \<noteq> p_key (players g ! challenged)"
    and "lastTurn g = Some pm" and "t_type pm = PLAYED"
    and "t_playerKey pm = Some (p_key (players g ! challenged))"
    and "dictionaryService g = Some d"
    and "\<exists>w \<in> set (t_words pm). \<not> hasWord d (w_word w)"
  shows "challenge challenger challenged g = takeBack challenger CHALLENGE_WON g"
proof -
  from assms(8) have "filter (\<lambda>w. \<not> hasWord d (w_word w)) (t_words pm) \<noteq> []"
    by (simp add: filter_empty_conv)
  then show ?thesis
    using challenge_reaches_then [OF assms(1-7)] by (simp add: challenge_then_def bad_def)
qed

lemma challenge_unavailable:
  assumes "valid_player g challenger" and "valid_player g challenged"
    and "p_key (players g ! challenger) \<noteq> p_key (players g ! challenged)"
    and "lastTurn g = Some pm" and "t_type pm = PLAYED"
    and "t_playerKey pm = Some (p_key (players g ! challenged))"
    and "dictionaryService g = None"
  shows "challenge challenger challenged g =
           (case takeBack challenger CHALLENGE_WON g of
              (Some e, g1) \<Rightarrow> (Some e, g1)
            | (None, g1) \<Rightarrow>
                if t_words pm = [] then challenge_failed challenger challenged pm g1
                else (Some (TypeError ''dict.hasWord is not a function''), g1))"
  using assms lastTurn_Some [OF assms(4)]
  by (simp add: challenge_def promiseDictionary_def challenge_then_def bad_def
      split: prod.splits option.splits)

lemma takeBack_game1_offline:
  "takeBack 0 CHALLENGE_WON game1_offline =
     (None,
      game1_offline
        \<lparr>players := [alice, bob\<lparr>p_rack := [Some tT, None, None], p_score := 13\<rparr>],
         board := (\<lambda>_. None), letterBag := [tQ],
         turns := [played_by_bob,
                   \<lparr>t_type = CHALLENGE_WON, t_playerKey = Some ''b2'', t_score = Points (- 7),
                    t_placements = Some [\<lparr>pl_tile = tT, pl_col = 7, pl_row = 8\<rparr>],
                    t_replacements = Some [tQ], t_words = [],
                    t_challengerKey = Some ''a1'', t_nextToGoKey = Some ''a1'',
                    t_penalty = None, t_endState = None, t_remainingTime = None\<rparr>]\<rparr>)"
  by (simp add: takeBack_def game1_offline_def game1_def game0_def lastTurn_def
      played_by_bob_def getPlayerWithKey_def alice_def bob_def update_player_def
      Word_removeTile_def Word_findSquare_def unplaceTile_def tQ_def tT_def
      finishTurn_def valid_player_def)

lemma takeBack_game1_wordless:
  "takeBack 0 CHALLENGE_WON game1_wordless =
     (None,
      game1_wordless
        \<lparr>players := [alice, bob\<lparr>p_rack := [Some tT, None, None], p_score := 13\<rparr>],
         board := (\<lambda>_. None), letterBag := [tQ],
         turns := [played_by_bob\<lparr>t_words := []\<rparr>,
                   \<lparr>t_type = CHALLENGE_WON, t_playerKey = Some ''b2'', t_score = Points (- 7),
                    t_placements = Some [\<lparr>pl_tile = tT, pl_col = 7, pl_row = 8\<rparr>],
                    t_replacements = Some [tQ], t_words = [],
                    t_challengerKey = Some ''a1'', t_nextToGoKey = Some ''a1'',
                    t_penalty = None, t_endState = None, t_remainingTime = None\<rparr>]\<rparr>)"
  by (simp add: takeBack_def game1_wordless_def game1_def game0_def lastTurn_def
      played_by_bob_def getPlayerWithKey_def alice_def bob_def update_player_def
      Word_removeTile_def Word_findSquare_def unplaceTile_def tQ_def tT_def
      finishTurn_def valid_player_def)

text \<open>
  C5. A challenge when the dictionary cannot be reached, in the example game after
  Bob's play. \<open>takeBack(challenger, CHALLENGE_WON)\<close> resolves; the challenge leaves the
  game as \<open>takeBack\<close> leaves it, but its promise rejects with the \<open>TypeError\<close> of the
  \<open>then\<close> handler. When the record of the play lists no words, the \<open>then\<close> handler goes
  on to the penalty of a failed challenge: under PER_TURN with five points the
  challenger ends with five points where \<open>takeBack\<close> leaves ten, and the ledger has
  three records where \<open>takeBack\<close> leaves two.
\<close>

theorem challenge_without_dictionary:
  "promiseDictionary game1_offline = Inl (Rejected ''dictionary unavailable'')
   \<and> fst (takeBack 0 CHALLENGE_WON game1_offline) = None
   \<and> fst (challenge 0 1 game1_offline) = Some (TypeError ''dict.hasWord is not a function'')
   \<and> snd (challenge 0 1 game1_offline) = snd (takeBack 0 CHALLENGE_WON game1_offline)
   \<and> promiseDictionary game1_wordless = Inl (Rejected ''dictionary unavailable'')
   \<and> p_score (players (snd (takeBack 0 CHALLENGE_WON game1_wordless)) ! 0) = 10
   \<and> p_score (players (snd (challenge 0 1 game1_wordless)) ! 0) = 5
   \<and> length (turns (snd (takeBack 0 CHALLENGE_WON game1_wordless))) = 2
   \<and> length (turns (snd (challenge 0 1 game1_wordless))) = 3
   \<and> t_type (last (turns (snd (challenge 0 1 game1_wordless)))) = CHALLENGE_LOST"
proof -
  have a: "valid_player game1_offline 0" "valid_player game1_offline 1"
    "p_key (players game1_offline ! 0) \<noteq> p_key (players game1_offline ! 1)"
    "lastTurn game1_offline = Some played_by_bob" "t_type played_by_bob = PLAYED"
    "t_playerKey played_by_bob = Some (p_key (players game1_offline ! 1))"
    "dictionaryService game1_offline = None" "t_words played_by_bob \<noteq> []"
    by (simp_all add: game1_offline_def game1_def game0_def valid_player_def alice_def bob_def
        lastTurn_def played_by_bob_def)
  have b: "valid_player game1_wordless 0" "valid_player game1_wordless 1"
    "p_key (players game1_wordless ! 0) \<noteq> p_key (players game1_wordless ! 1)"
    "lastTurn game1_wordless = Some (played_by_bob\<lparr>t_words := []\<rparr>)"
    "t_type (played_by_bob\<lparr>t_words := []\<rparr>) = PLAYED"
    "t_playerKey (played_by_bob\<lparr>t_words := []\<rparr>) = Some (p_key (players game1_wordless ! 1))"
    "dictionaryService game1_wordless = None"
    by (simp_all add: game1_wordless_def game1_def game0_def valid_player_def alice_def bob_def
        lastTurn_def played_by_bob_def)
  have c1: "challenge 0 1 game1_offline
              = (Some (TypeError ''dict.hasWord is not a function''),
                 snd (takeBack 0 CHALLENGE_WON game1_offline))"
    using a(8) unfolding challenge_unavailable [OF a(1-7)] takeBack_game1_offline by simp
  have c2: "challenge 0 1 game1_wordless
              = challenge_failed 0 1 (played_by_bob\<lparr>t_words := []\<rparr>)
                  (snd (takeBack 0 CHALLENGE_WON game1_wordless))"
    unfolding challenge_unavailable [OF b(1-7)] takeBack_game1_wordless by simp
  have c3: "p_score (players (snd (challenge 0 1 game1_wordless)) ! 0) = 5
     \<and> length (turns (snd (challenge 0 1 game1_wordless))) = 3
     \<and> t_type (last (turns (snd (challenge 0 1 game1_wordless)))) = CHALLENGE_LOST"
    unfolding c2 takeBack_game1_wordless
    by (simp add: challenge_failed_def getPlayer_def nextPlayer_def getPlayerWithKey_def
        game1_wordless_def game1_def game0_def alice_def bob_def finishTurn_def
        valid_player_def update_player_def)
  have c4: "p_score (players (snd (takeBack 0 CHALLENGE_WON game1_wordless)) ! 0) = 10
     \<and> length (turns (snd (takeBack 0 CHALLENGE_WON game1_wordless))) = 2"
    unfolding takeBack_game1_wordless by (simp add: alice_def)
  have c5: "fst (takeBack 0 CHALLENGE_WON game1_offline) = None"
    unfolding takeBack_game1_offline by simp
  have c6: "promiseDictionary game1_offline = Inl (Rejected ''dictionary unavailable'')"
    "promiseDictionary game1_wordless = Inl (Rejected ''dictionary unavailable'')"
    using a(7) b(7) by (simp_all add: promiseDictionary_def)
  from c1 c3 c4 c5 c6 show ?thesis by simp
qed


end
